theory Spec2Isabelle
  imports Complex_Main "HOL-Library.Sublist" "HOL-Library.Char_ord" "HOL-Library.List_Lexorder"
    "HOL-Library.Product_Lexorder"
begin

section \<open>Email delivery with bounded retry (emailNotificationService)\<close>

text \<open>
  The retry constants of \<^verbatim>\<open>RETRY_CONFIG\<close>. Delays are JavaScript numbers in
  milliseconds and are modelled as reals; \<^verbatim>\<open>Math.random()\<close> is a parameter
  \<open>rnd\<close> with \<open>0 \<le> rnd < 1\<close>.
\<close>

record retry_config =
  maxRetries :: nat
  baseDelayMs :: real
  maxDelayMs :: real

definition RETRY_CONFIG :: retry_config where
  "RETRY_CONFIG = \<lparr>maxRetries = 3, baseDelayMs = 1000, maxDelayMs = 10000\<rparr>"

definition getRetryDelay :: "nat \<Rightarrow> real \<Rightarrow> real" where
  "getRetryDelay attempt rnd =
     (let exponentialDelay = baseDelayMs RETRY_CONFIG * 2 ^ attempt;
          jitter = rnd * 1000
      in min (exponentialDelay + jitter) (maxDelayMs RETRY_CONFIG))"

text \<open>
  The error object handed to \<^verbatim>\<open>isRetryableError\<close>: only its \<^verbatim>\<open>statusCode\<close> and
  \<^verbatim>\<open>code\<close> properties are read. A property that is absent, \<^verbatim>\<open>null\<close> or
  \<^verbatim>\<open>undefined\<close> is \<open>None\<close>; the status code \<open>0\<close> is falsy as in JavaScript.
\<close>

record send_error =
  statusCode :: "int option"
  code :: "string option"

definition isRetryableError :: "send_error \<Rightarrow> bool" where
  "isRetryableError e =
     (case statusCode e of
        Some sc \<Rightarrow>
          if sc \<noteq> 0 then sc = 429 \<or> sc \<ge> 500
          else code e = Some ''ECONNRESET'' \<or> code e = Some ''ETIMEDOUT'' \<or> code e = Some ''ENOTFOUND''
      | None \<Rightarrow> code e = Some ''ECONNRESET'' \<or> code e = Some ''ETIMEDOUT'' \<or> code e = Some ''ENOTFOUND'')"

text \<open>
  What one call of \<^verbatim>\<open>resend.emails.send\<close> does: it resolves without an error, it
  resolves with an error object, or it throws.
\<close>

datatype send_outcome = Delivered | ReturnedError send_error | Thrown send_error

datatype log_level = LogInfo | LogWarn | LogError

text \<open>
  The observable behaviour of one \<^verbatim>\<open>sendEmail\<close> call: the boolean it resolves to,
  the number of transport calls it made, the delays it awaited (in order) and the
  levels of the log lines it wrote (in order).
\<close>

record send_result =
  result :: bool
  attempts :: nat
  delays :: "real list"
  logs :: "log_level list"

text \<open>
  The \<^verbatim>\<open>for (attempt = 0; attempt <= maxRetries; attempt++)\<close> loop. \<open>transport k\<close> is
  the outcome of the transport call made in iteration \<open>k\<close> and \<open>rnd k\<close> the random
  number drawn for the delay after it. The \<open>else\<close> branch is the code after the loop.
\<close>

function sendEmail_loop :: "(nat \<Rightarrow> send_outcome) \<Rightarrow> (nat \<Rightarrow> real) \<Rightarrow> nat \<Rightarrow> send_result" where
  "sendEmail_loop transport rnd attempt =
     (if attempt \<le> maxRetries RETRY_CONFIG then
        (case transport attempt of
           Delivered \<Rightarrow>
             \<lparr>result = True, attempts = 1, delays = [], logs = [LogInfo]\<rparr>
         | ReturnedError e \<Rightarrow>
             if \<not> isRetryableError e \<or> attempt = maxRetries RETRY_CONFIG then
               \<lparr>result = False, attempts = 1, delays = [], logs = [LogError]\<rparr>
             else
               (let retryDelay = getRetryDelay attempt (rnd attempt);
                    r = sendEmail_loop transport rnd (attempt + 1)
                in r\<lparr>attempts := attempts r + 1, delays := retryDelay # delays r,
                      logs := LogWarn # logs r\<rparr>)
         | Thrown err \<Rightarrow>
             if attempt = maxRetries RETRY_CONFIG then
               \<lparr>result = False, attempts = 1, delays = [], logs = [LogError]\<rparr>
             else
               (let retryDelay = getRetryDelay attempt (rnd attempt);
                    r = sendEmail_loop transport rnd (attempt + 1)
                in r\<lparr>attempts := attempts r + 1, delays := retryDelay # delays r,
                      logs := LogWarn # logs r\<rparr>))
      else \<lparr>result = False, attempts = 0, delays = [], logs = [LogError]\<rparr>)"
  by pat_completeness auto
termination
  by (relation "measure (\<lambda>(transport, rnd, attempt). maxRetries RETRY_CONFIG + 1 - attempt)") auto

declare sendEmail_loop.simps [simp del]

text \<open>
  \<^verbatim>\<open>sendEmail\<close>: \<open>apiKey\<close> is \<^verbatim>\<open>config.resend.apiKey\<close>, a string that is falsy when
  empty.
\<close>

definition sendEmail :: "string \<Rightarrow> (nat \<Rightarrow> send_outcome) \<Rightarrow> (nat \<Rightarrow> real) \<Rightarrow> send_result" where
  "sendEmail apiKey transport rnd =
     (if apiKey = [] then \<lparr>result = False, attempts = 0, delays = [], logs = [LogWarn]\<rparr>
      else sendEmail_loop transport rnd 0)"


section \<open>Database tables\<close>

text \<open>
  The tables of the migrations, as lists of rows in insertion order. Only the columns
  that the modelled functions read or write are kept. A \<^verbatim>\<open>UUID\<close> is a natural
  number; a timestamp is an integer number of milliseconds. Every query is taken to
  reach the database: connection failures are not modelled, except in the scheduled
  jobs, where each statement of an item may fail.
\<close>

type_synonym uuid = nat
type_synonym timestamp = int

datatype UserRole = ADMIN | LAWYER | CLIENT

datatype CaseStatus =
  NEW | IN_REVIEW | ACTIVE | PENDING_CLIENT | PENDING_DOCUMENTS | IN_PROGRESS
  | AWAITING_RESPONSE | RESOLVED | CLOSED | ARCHIVED

datatype CaseType =
  PERSONAL_INJURY | FAMILY_LAW | CRIMINAL_DEFENSE | ESTATE_PLANNING | BUSINESS_LAW
  | REAL_ESTATE | IMMIGRATION | BANKRUPTCY | EMPLOYMENT | OTHER

datatype CaseEventType =
  CASE_CREATED | CASE_UPDATED | STATUS_CHANGED | DOCUMENT_UPLOADED | DOCUMENT_DOWNLOADED
  | EMAIL_RECEIVED | EMAIL_SENT | LAWYER_ASSIGNED | LAWYER_NOTE_ADDED | CLIENT_NOTIFIED
  | INACTIVITY_ALERT | PENDING | MESSAGE_SENT

datatype NotificationType =
  NEW_CASE | CASE_UPDATE | DOCUMENT_UPLOADED_NOTIFICATION | MESSAGE_RECEIVED | CASE_ASSIGNED
  | DEADLINE_REMINDER | SYSTEM_ALERT

record user_row =
  u_id :: uuid
  u_email :: string
  u_role :: UserRole
  u_first_name :: string
  u_last_name :: string
  u_is_active :: bool

record client_row =
  cl_id :: uuid
  cl_user_id :: uuid

record lawyer_row =
  l_id :: uuid
  l_user_id :: uuid
  l_is_available :: bool

record case_row =
  c_id :: uuid
  c_case_number :: string
  c_client_id :: uuid
  c_lawyer_id :: "uuid option"
  c_title :: string
  c_description :: "string option"
  c_status :: CaseStatus
  c_priority :: int
  c_case_type :: "string option"
  c_closed_at :: "timestamp option"
  c_last_activity_at :: timestamp
  c_created_at :: timestamp
  c_last_inactivity_notification :: "timestamp option"

text \<open>
  A row of \<^verbatim>\<open>case_events\<close>. The event type is optional because one caller passes
  a member that the \<^verbatim>\<open>CaseEventType\<close> enum does not have, which is
  \<^verbatim>\<open>undefined\<close> at run time.
\<close>

record case_event_row =
  ev_case_id :: uuid
  ev_event_type :: CaseEventType
  ev_actor_id :: "uuid option"
  ev_description :: string
  ev_created_at :: timestamp

record message_row =
  m_id :: uuid
  m_case_id :: uuid
  m_sender_id :: uuid
  m_content :: string
  m_created_at :: timestamp

record document_row =
  d_id :: uuid
  d_case_id :: uuid
  d_uploaded_by :: uuid
  d_original_filename :: string
  d_mime_type :: string
  d_file_size :: nat
  d_created_at :: timestamp

record notification_row =
  n_id :: uuid
  n_user_id :: uuid
  n_type :: NotificationType
  n_title :: string
  n_message :: string
  n_case_id :: "uuid option"
  n_is_read :: bool
  n_created_at :: timestamp
  n_read_at :: "timestamp option"

record database =
  users :: "user_row list"
  clients :: "client_row list"
  lawyers :: "lawyer_row list"
  cases :: "case_row list"
  case_events :: "case_event_row list"
  messages :: "message_row list"
  documents :: "document_row list"
  notifications :: "notification_row list"
  case_number_seq :: nat

datatype error =
  NotFoundError string | ForbiddenError string | BadRequestError string
  | PlainError string | DatabaseError string

text \<open>\<^verbatim>\<open>queryOne\<close>: the first row of a result, or \<^verbatim>\<open>null\<close>.\<close>

definition queryOne :: "'a list \<Rightarrow> 'a option" where
  "queryOne rows = (case rows of [] \<Rightarrow> None | r # rest \<Rightarrow> Some r)"

subsection \<open>Triggers and the event log\<close>

text \<open>
  The trigger function \<^verbatim>\<open>update_case_last_activity\<close>, fired after each insert into
  \<^verbatim>\<open>case_events\<close> and into \<^verbatim>\<open>messages\<close>; \<open>now\<close> is \<^verbatim>\<open>CURRENT_TIMESTAMP\<close>.
\<close>

definition update_case_last_activity :: "timestamp \<Rightarrow> uuid \<Rightarrow> case_row list \<Rightarrow> case_row list" where
  "update_case_last_activity now case_id cs =
     map (\<lambda>c. if c_id c = case_id then c\<lparr>c_last_activity_at := now\<rparr> else c) cs"

text \<open>
  \<^verbatim>\<open>INSERT INTO case_events\<close>: the row gets \<^verbatim>\<open>created_at = CURRENT_TIMESTAMP\<close> by
  default and the trigger runs in the same statement.
\<close>

definition insert_case_event :: "timestamp \<Rightarrow> case_event_row \<Rightarrow> database \<Rightarrow> database" where
  "insert_case_event now ev db =
     db\<lparr>case_events := case_events db @ [ev\<lparr>ev_created_at := now\<rparr>],
        cases := update_case_last_activity now (ev_case_id ev) (cases db)\<rparr>"

text \<open>
  \<^verbatim>\<open>caseEventRepository.create\<close> returns the inserted row. The event type is
  \<open>None\<close> when the caller passes \<^verbatim>\<open>undefined\<close>, which the driver sends as
  \<^verbatim>\<open>NULL\<close>: the column is \<^verbatim>\<open>NOT NULL\<close> and the statement fails.
\<close>

definition caseEventRepository_create ::
  "timestamp \<Rightarrow> uuid \<Rightarrow> CaseEventType option \<Rightarrow> uuid option \<Rightarrow> string \<Rightarrow> database
     \<Rightarrow> (error + case_event_row) \<times> database" where
  "caseEventRepository_create now case_id event_type actor_id description db =
     (case event_type of
        None \<Rightarrow>
          (Inl (DatabaseError ''null value in column event_type violates not-null constraint''), db)
      | Some defined_type \<Rightarrow>
          (let ev = \<lparr>ev_case_id = case_id, ev_event_type = defined_type, ev_actor_id = actor_id,
                      ev_description = description, ev_created_at = now\<rparr>
           in (Inr ev, insert_case_event now ev db)))"

subsection \<open>Repositories\<close>

definition caseRepository_findById :: "uuid \<Rightarrow> database \<Rightarrow> case_row option" where
  "caseRepository_findById ident db = queryOne (filter (\<lambda>c. c_id c = ident) (cases db))"

definition clientRepository_findById :: "uuid \<Rightarrow> database \<Rightarrow> client_row option" where
  "clientRepository_findById ident db = queryOne (filter (\<lambda>c. cl_id c = ident) (clients db))"

definition clientRepository_findByUserId :: "uuid \<Rightarrow> database \<Rightarrow> client_row option" where
  "clientRepository_findByUserId userId db = queryOne (filter (\<lambda>c. cl_user_id c = userId) (clients db))"

definition lawyerRepository_findById :: "uuid \<Rightarrow> database \<Rightarrow> lawyer_row option" where
  "lawyerRepository_findById ident db = queryOne (filter (\<lambda>l. l_id l = ident) (lawyers db))"

definition lawyerRepository_findByUserId :: "uuid \<Rightarrow> database \<Rightarrow> lawyer_row option" where
  "lawyerRepository_findByUserId userId db = queryOne (filter (\<lambda>l. l_user_id l = userId) (lawyers db))"

record UpdateCaseData =
  upd_lawyer_id :: "uuid option"
  upd_title :: "string option"
  upd_description :: "string option"
  upd_status :: "CaseStatus option"
  upd_case_type :: "string option"
  upd_priority :: "int option"

text \<open>The \<^verbatim>\<open>SET\<close> list that \<^verbatim>\<open>caseRepository.update\<close> builds, applied to one row.\<close>

definition apply_update :: "timestamp \<Rightarrow> UpdateCaseData \<Rightarrow> case_row \<Rightarrow> case_row" where
  "apply_update now data c =
     (let c1 = (case upd_lawyer_id data of None \<Rightarrow> c | Some l \<Rightarrow> c\<lparr>c_lawyer_id := Some l\<rparr>);
          c2 = (case upd_title data of None \<Rightarrow> c1 | Some t \<Rightarrow> c1\<lparr>c_title := t\<rparr>);
          c3 = (case upd_description data of None \<Rightarrow> c2 | Some d \<Rightarrow> c2\<lparr>c_description := Some d\<rparr>);
          c4 = (case upd_status data of
                  None \<Rightarrow> c3
                | Some st \<Rightarrow>
                    if st = CLOSED \<or> st = ARCHIVED
                    then c3\<lparr>c_status := st, c_closed_at := Some now\<rparr>
                    else c3\<lparr>c_status := st\<rparr>);
          c5 = (case upd_case_type data of None \<Rightarrow> c4 | Some t \<Rightarrow> c4\<lparr>c_case_type := Some t\<rparr>)
      in (case upd_priority data of None \<Rightarrow> c5 | Some p \<Rightarrow> c5\<lparr>c_priority := p\<rparr>))"

definition no_fields :: "UpdateCaseData \<Rightarrow> bool" where
  "no_fields data \<longleftrightarrow>
     upd_lawyer_id data = None \<and> upd_title data = None \<and> upd_description data = None \<and>
     upd_status data = None \<and> upd_case_type data = None \<and> upd_priority data = None"

text \<open>
  \<^verbatim>\<open>caseRepository.update\<close>. The \<^verbatim>\<open>UPDATE\<close> fails, and changes nothing, when a
  row it would write violates the \<^verbatim>\<open>CHECK\<close> on \<^verbatim>\<open>priority\<close> or the foreign
  key of \<^verbatim>\<open>lawyer_id\<close>; without a row of that identifier it writes nothing and
  returns \<^verbatim>\<open>null\<close>.
\<close>

definition caseRepository_update ::
  "timestamp \<Rightarrow> uuid \<Rightarrow> UpdateCaseData \<Rightarrow> database \<Rightarrow> (error + case_row option) \<times> database" where
  "caseRepository_update now ident data db =
     (if no_fields data then (Inr (caseRepository_findById ident db), db)
      else
        (let cases' = map (\<lambda>c. if c_id c = ident then apply_update now data c else c) (cases db);
             written = filter (\<lambda>c. c_id c = ident) cases'
         in if list_ex (\<lambda>c. c_priority c < 1 \<or> 5 < c_priority c) written then
              (Inl (DatabaseError ''violates check constraint''), db)
            else if written \<noteq> []
                    \<and> (case upd_lawyer_id data of
                          None \<Rightarrow> False
                        | Some l \<Rightarrow> l \<notin> set (map l_id (lawyers db))) then
              (Inl (DatabaseError ''violates foreign key constraint''), db)
            else (Inr (queryOne written), db\<lparr>cases := cases'\<rparr>)))"

definition caseRepository_assignLawyer ::
  "timestamp \<Rightarrow> uuid \<Rightarrow> uuid \<Rightarrow> database \<Rightarrow> (error + case_row option) \<times> database" where
  "caseRepository_assignLawyer now ident lawyerId db =
     caseRepository_update now ident
       \<lparr>upd_lawyer_id = Some lawyerId, upd_title = None, upd_description = None,
        upd_status = None, upd_case_type = None, upd_priority = None\<rparr> db"


subsection \<open>Text helpers\<close>

definition digit_char :: "nat \<Rightarrow> char" where
  "digit_char d = ''0123456789'' ! d"

text \<open>Decimal text of a non-negative integer, most significant digit first.\<close>

function string_of_nat :: "nat \<Rightarrow> string" where
  "string_of_nat n =
     (if n < 10 then [digit_char n] else string_of_nat (n div 10) @ [digit_char (n mod 10)])"
  by pat_completeness auto
termination
  by (relation "measure (\<lambda>n. n)") auto

declare string_of_nat.simps [simp del]

text \<open>\<^verbatim>\<open>String.prototype.padStart(n, c)\<close> for a one-character filler.\<close>

definition padStart :: "nat \<Rightarrow> char \<Rightarrow> string \<Rightarrow> string" where
  "padStart n c s = replicate (n - length s) c @ s"

text \<open>PostgreSQL \<^verbatim>\<open>lpad(s, n, c)\<close>: pads on the left, and truncates a longer text to \<open>n\<close>.\<close>

definition lpad :: "string \<Rightarrow> nat \<Rightarrow> char \<Rightarrow> string" where
  "lpad s n c = (if n \<le> length s then take n s else replicate (n - length s) c @ s)"

text \<open>
  The characters matched by \<^verbatim>\<open>\s\<close> and removed by \<^verbatim>\<open>trim()\<close>, among the code
  units below 256: tab, line feed, vertical tab, form feed, carriage return, space and
  no-break space. A \<open>string\<close> here is a list of such code units.
\<close>

definition js_whitespace :: "char \<Rightarrow> bool" where
  "js_whitespace c \<longleftrightarrow> of_char c \<in> {9, 10, 11, 12, 13, 32, 160 :: nat}"

definition js_trim :: "string \<Rightarrow> string" where
  "js_trim s = rev (dropWhile js_whitespace (rev (dropWhile js_whitespace s)))"

section \<open>Case numbers and case creation (caseRepository, SQL functions)\<close>

text \<open>
  The SQL function \<^verbatim>\<open>generate_case_number()\<close>. The sequence \<^verbatim>\<open>case_number_seq\<close>
  starts at 1 and \<open>case_number_seq db\<close> is the number of \<^verbatim>\<open>nextval\<close> calls made so
  far; \<open>year\<close> is the year of \<^verbatim>\<open>CURRENT_DATE\<close> (below 10000). \<^verbatim>\<open>nextval\<close> fails
  past the largest \<^verbatim>\<open>bigint\<close>; the variable \<^verbatim>\<open>seq_val\<close> is an \<^verbatim>\<open>INTEGER\<close>, and
  the assignment fails past the largest one, after the sequence has advanced.
\<close>

definition generate_case_number :: "nat \<Rightarrow> database \<Rightarrow> (error + string) \<times> database" where
  "generate_case_number year db =
     (if 9223372036854775807 \<le> case_number_seq db then
        (Inl (DatabaseError ''nextval: reached maximum value of sequence''), db)
      else
        (let seq_val = case_number_seq db + 1;
             year_part = padStart 4 (CHR ''0'') (string_of_nat year)
         in if 2147483647 < seq_val then
              (Inl (DatabaseError ''integer out of range''), db\<lparr>case_number_seq := seq_val\<rparr>)
            else
              (Inr (''CASE-'' @ year_part @ ''-'' @ lpad (string_of_nat seq_val) 5 (CHR ''0'')),
               db\<lparr>case_number_seq := seq_val\<rparr>)))"

record CreateCaseData =
  cd_client_id :: uuid
  cd_lawyer_id :: "uuid option"
  cd_title :: string
  cd_description :: "string option"
  cd_case_type :: "string option"
  cd_priority :: "int option"

text \<open>
  \<^verbatim>\<open>caseRepository.createWithEvent\<close>: one transaction that inserts the case and its
  \<^verbatim>\<open>case_created\<close> event. \<open>now\<close> is the transaction's \<^verbatim>\<open>CURRENT_TIMESTAMP\<close>,
  \<open>new_id\<close> the generated primary key. The status, the two timestamps and the
  notification stamp take the column defaults. A failure of
  \<^verbatim>\<open>generate_case_number()\<close> or a violated \<^verbatim>\<open>UNIQUE\<close>, \<^verbatim>\<open>CHECK\<close> or foreign
  key constraint rolls the transaction back; the sequence stays advanced.
\<close>

definition createWithEvent ::
  "timestamp \<Rightarrow> nat \<Rightarrow> uuid \<Rightarrow> CreateCaseData \<Rightarrow> uuid option \<Rightarrow> database
     \<Rightarrow> (error + case_row) \<times> database" where
  "createWithEvent now year new_id data actorId db =
     (case generate_case_number year db of
        (Inl err, db1) \<Rightarrow> (Inl err, db1)
      | (Inr number, db1) \<Rightarrow>
          (let priority = (case cd_priority data of None \<Rightarrow> 3 | Some p \<Rightarrow> if p = 0 then 3 else p);
               newCase = \<lparr>c_id = new_id, c_case_number = number, c_client_id = cd_client_id data,
                          c_lawyer_id = cd_lawyer_id data, c_title = cd_title data,
                          c_description = cd_description data, c_status = NEW, c_priority = priority,
                          c_case_type = cd_case_type data, c_closed_at = None,
                          c_last_activity_at = now, c_created_at = now,
                          c_last_inactivity_notification = None\<rparr>
           in if number \<in> set (map c_case_number (cases db)) then
                (Inl (DatabaseError ''duplicate key value violates unique constraint''), db1)
              else if priority < 1 \<or> 5 < priority then
                (Inl (DatabaseError ''violates check constraint''), db1)
              else if cd_client_id data \<notin> set (map cl_id (clients db))
                      \<or> (case cd_lawyer_id data of
                            None \<Rightarrow> False
                          | Some l \<Rightarrow> l \<notin> set (map l_id (lawyers db))) then
                (Inl (DatabaseError ''violates foreign key constraint''), db1)
              else
                (let db2 = db1\<lparr>cases := cases db1 @ [newCase]\<rparr>;
                     db3 = insert_case_event now
                             \<lparr>ev_case_id = new_id, ev_event_type = CASE_CREATED,
                              ev_actor_id = actorId,
                              ev_description = ''Case created: '' @ cd_title data,
                              ev_created_at = now\<rparr> db2
                 in (Inr newCase, db3))))"

section \<open>Case mutations (caseService, messageService, documentService)\<close>

text \<open>
  A notification pipeline started by a mutation is an asynchronous call that is not
  awaited and carries \<^verbatim>\<open>.catch(err => logger.warn(...))\<close>. Its settled state is a
  parameter: \<open>None\<close> when it fulfils, \<open>Some err\<close> when it rejects. The handler
  turns a rejection into one warning line.
\<close>

definition detached_catch :: "error option \<Rightarrow> log_level list" where
  "detached_catch settled = (case settled of None \<Rightarrow> [] | Some err \<Rightarrow> [LogWarn])"

text \<open>
  A service call yields the value it resolves to or the error it rejects with, the
  database after its own statements, and the log lines it causes.
\<close>

type_synonym 'a service_result = "(error + 'a) \<times> database \<times> log_level list"

definition caseService_createCase ::
  "timestamp \<Rightarrow> nat \<Rightarrow> uuid \<Rightarrow> CreateCaseData \<Rightarrow> uuid option \<Rightarrow> error option \<Rightarrow> database
     \<Rightarrow> case_row service_result" where
  "caseService_createCase now year new_id data actorId notifications_settled db =
     (case clientRepository_findById (cd_client_id data) db of
        None \<Rightarrow> (Inl (NotFoundError ''Client not found''), db, [])
      | Some client \<Rightarrow>
          if (case cd_lawyer_id data of
                None \<Rightarrow> False
              | Some lawyerId \<Rightarrow> lawyerRepository_findById lawyerId db = None)
          then (Inl (NotFoundError ''Lawyer not found''), db, [])
          else
            (case createWithEvent now year new_id data actorId db of
               (Inl err, db') \<Rightarrow> (Inl err, db', [])
             | (Inr newCase, db') \<Rightarrow>
                 (Inr newCase, db', LogInfo # detached_catch notifications_settled)))"

definition checkCaseAccess :: "case_row \<Rightarrow> uuid \<Rightarrow> UserRole \<Rightarrow> database \<Rightarrow> error option" where
  "checkCaseAccess caseRecord userId userRole db =
     (case userRole of
        ADMIN \<Rightarrow> None
      | CLIENT \<Rightarrow>
          (case clientRepository_findByUserId userId db of
             None \<Rightarrow> Some (ForbiddenError ''You do not have access to this case'')
           | Some client \<Rightarrow>
               if cl_id client \<noteq> c_client_id caseRecord
               then Some (ForbiddenError ''You do not have access to this case'')
               else None)
      | LAWYER \<Rightarrow>
          (case lawyerRepository_findByUserId userId db of
             None \<Rightarrow> Some (ForbiddenError ''You are not assigned to this case'')
           | Some lawyer \<Rightarrow>
               if Some (l_id lawyer) \<noteq> c_lawyer_id caseRecord
               then Some (ForbiddenError ''You are not assigned to this case'')
               else None))"

definition CaseStatus_value :: "CaseStatus \<Rightarrow> string" where
  "CaseStatus_value st =
     (case st of
        NEW \<Rightarrow> ''new'' | IN_REVIEW \<Rightarrow> ''in_review'' | ACTIVE \<Rightarrow> ''active''
      | PENDING_CLIENT \<Rightarrow> ''pending_client'' | PENDING_DOCUMENTS \<Rightarrow> ''pending_documents''
      | IN_PROGRESS \<Rightarrow> ''in_progress'' | AWAITING_RESPONSE \<Rightarrow> ''awaiting_response''
      | RESOLVED \<Rightarrow> ''resolved'' | CLOSED \<Rightarrow> ''closed'' | ARCHIVED \<Rightarrow> ''archived'')"

text \<open>
  \<^verbatim>\<open>caseService.updateCase\<close>. \<open>t_update\<close> and \<open>t_event\<close> are the times of the
  \<^verbatim>\<open>UPDATE\<close> and of the event \<^verbatim>\<open>INSERT\<close>.
\<close>

definition caseService_updateCase ::
  "timestamp \<Rightarrow> timestamp \<Rightarrow> uuid \<Rightarrow> UpdateCaseData \<Rightarrow> uuid \<Rightarrow> UserRole \<Rightarrow> error option
     \<Rightarrow> database \<Rightarrow> case_row service_result" where
  "caseService_updateCase t_update t_event caseId data userId userRole notifications_settled db =
     (case caseRepository_findById caseId db of
        None \<Rightarrow> (Inl (NotFoundError ''Case not found''), db, [])
      | Some caseRecord \<Rightarrow>
          if userRole = CLIENT then
            (Inl (ForbiddenError ''Clients cannot update cases directly''), db, [])
          else
            (case checkCaseAccess caseRecord userId userRole db of
               Some err \<Rightarrow> (Inl err, db, [])
             | None \<Rightarrow>
                 (case caseRepository_update t_update caseId data db of
                    (Inl err, db1) \<Rightarrow> (Inl err, db1, [])
                  | (Inr None, db1) \<Rightarrow> (Inl (NotFoundError ''Case not found''), db1, [])
                  | (Inr (Some updatedCase), db1) \<Rightarrow>
                      (case upd_status data of
                         None \<Rightarrow> (Inr updatedCase, db1, [LogInfo])
                       | Some st \<Rightarrow>
                           if st \<noteq> c_status caseRecord then
                             (case caseEventRepository_create t_event caseId (Some STATUS_CHANGED)
                                     (Some userId)
                                     (''Status changed from '' @ [CHR 0x22] @ CaseStatus_value (c_status caseRecord)
                                        @ [CHR 0x22] @ '' to '' @ [CHR 0x22]
                                        @ CaseStatus_value st @ [CHR 0x22]) db1 of
                                (Inl err, db2) \<Rightarrow> (Inl err, db2, [])
                              | (Inr ev, db2) \<Rightarrow>
                                  (Inr updatedCase, db2,
                                   detached_catch notifications_settled @ [LogInfo]))
                           else (Inr updatedCase, db1, [LogInfo])))))"

definition caseService_assignLawyer ::
  "timestamp \<Rightarrow> timestamp \<Rightarrow> uuid \<Rightarrow> uuid \<Rightarrow> uuid \<Rightarrow> error option \<Rightarrow> database
     \<Rightarrow> case_row service_result" where
  "caseService_assignLawyer t_update t_event caseId lawyerId assignedBy notifications_settled db =
     (case caseRepository_findById caseId db of
        None \<Rightarrow> (Inl (NotFoundError ''Case not found''), db, [])
      | Some caseRecord \<Rightarrow>
          (case lawyerRepository_findById lawyerId db of
             None \<Rightarrow> (Inl (NotFoundError ''Lawyer not found''), db, [])
           | Some lawyer \<Rightarrow>
               (case caseRepository_assignLawyer t_update caseId lawyerId db of
                  (Inl err, db1) \<Rightarrow> (Inl err, db1, [])
                | (Inr None, db1) \<Rightarrow> (Inl (NotFoundError ''Case not found''), db1, [])
                | (Inr (Some updatedCase), db1) \<Rightarrow>
                    (case caseEventRepository_create t_event caseId (Some LAWYER_ASSIGNED)
                            (Some assignedBy) ''Lawyer assigned to case'' db1 of
                       (Inl err, db2) \<Rightarrow> (Inl err, db2, [])
                     | (Inr ev, db2) \<Rightarrow>
                         (Inr updatedCase, db2, LogInfo # detached_catch notifications_settled)))))"


text \<open>
  \<^verbatim>\<open>messageService.checkMessageAccess\<close> and \<^verbatim>\<open>documentService.checkDocumentAccess\<close>
  differ only in the text of the client's error.
\<close>

definition checkPartyAccess ::
  "string \<Rightarrow> uuid \<Rightarrow> uuid option \<Rightarrow> uuid \<Rightarrow> UserRole \<Rightarrow> database \<Rightarrow> error option" where
  "checkPartyAccess clientMessage clientId lawyerId userId userRole db =
     (case userRole of
        ADMIN \<Rightarrow> None
      | CLIENT \<Rightarrow>
          (case clientRepository_findByUserId userId db of
             None \<Rightarrow> Some (ForbiddenError clientMessage)
           | Some client \<Rightarrow>
               if cl_id client \<noteq> clientId then Some (ForbiddenError clientMessage) else None)
      | LAWYER \<Rightarrow>
          (case lawyerRepository_findByUserId userId db of
             None \<Rightarrow> Some (ForbiddenError ''You are not assigned to this case'')
           | Some lawyer \<Rightarrow>
               if Some (l_id lawyer) \<noteq> lawyerId
               then Some (ForbiddenError ''You are not assigned to this case'')
               else None))"

definition checkMessageAccess :: "uuid \<Rightarrow> uuid option \<Rightarrow> uuid \<Rightarrow> UserRole \<Rightarrow> database \<Rightarrow> error option" where
  "checkMessageAccess = checkPartyAccess ''You do not have access to this case''"

definition checkDocumentAccess :: "uuid \<Rightarrow> uuid option \<Rightarrow> uuid \<Rightarrow> UserRole \<Rightarrow> database \<Rightarrow> error option" where
  "checkDocumentAccess = checkPartyAccess ''You do not have access to these documents''"

text \<open>
  \<^verbatim>\<open>messageRepository.create\<close>: the insert fires the trigger
  \<^verbatim>\<open>update_case_activity_on_message\<close>.
\<close>

definition messageRepository_create ::
  "timestamp \<Rightarrow> uuid \<Rightarrow> uuid \<Rightarrow> uuid \<Rightarrow> string \<Rightarrow> database \<Rightarrow> message_row \<times> database" where
  "messageRepository_create now new_id case_id sender_id content db =
     (let m = \<lparr>m_id = new_id, m_case_id = case_id, m_sender_id = sender_id,
                m_content = content, m_created_at = now\<rparr>
      in (m, db\<lparr>messages := messages db @ [m],
                cases := update_case_last_activity now case_id (cases db)\<rparr>))"

text \<open>
  \<^verbatim>\<open>messageService.sendMessage\<close>. The sender's name and role, which the source adds
  to the returned message, are left out of the returned value.
\<close>

definition messageService_sendMessage ::
  "timestamp \<Rightarrow> timestamp \<Rightarrow> uuid \<Rightarrow> uuid \<Rightarrow> uuid \<Rightarrow> UserRole \<Rightarrow> string \<Rightarrow> error option
     \<Rightarrow> database \<Rightarrow> message_row service_result" where
  "messageService_sendMessage t_message t_event new_id caseId senderId senderRole content
       notifications_settled db =
     (if content = [] \<or> js_trim content = [] then
        (Inl (BadRequestError ''Message content cannot be empty''), db, [])
      else
        (case caseRepository_findById caseId db of
           None \<Rightarrow> (Inl (NotFoundError ''Case not found''), db, [])
         | Some caseRecord \<Rightarrow>
             (case checkMessageAccess (c_client_id caseRecord) (c_lawyer_id caseRecord)
                     senderId senderRole db of
                Some err \<Rightarrow> (Inl err, db, [])
              | None \<Rightarrow>
                  (let (message, db1) =
                         messageRepository_create t_message new_id caseId senderId (js_trim content) db
                   in case caseEventRepository_create t_event caseId (Some MESSAGE_SENT)
                             (Some senderId) ''Message sent'' db1 of
                        (Inl err, db2) \<Rightarrow> (Inl err, db2, [])
                      | (Inr ev, db2) \<Rightarrow>
                          (Inr message, db2, LogInfo # detached_catch notifications_settled)))))"

record UploadedFile =
  f_originalname :: string
  f_mimetype :: string
  f_size :: nat

definition getAllowedMimeTypes :: "string list" where
  "getAllowedMimeTypes =
     [''application/pdf'',
      ''application/msword'',
      ''application/vnd.openxmlformats-officedocument.wordprocessingml.document'',
      ''application/vnd.ms-excel'',
      ''application/vnd.openxmlformats-officedocument.spreadsheetml.sheet'',
      ''image/jpeg'',
      ''image/png'',
      ''image/gif'',
      ''image/webp'',
      ''text/plain'',
      ''text/csv'']"

definition isAllowedMimeType :: "string \<Rightarrow> bool" where
  "isAllowedMimeType mimeType \<longleftrightarrow> mimeType \<in> set getAllowedMimeTypes"

text \<open>
  \<^verbatim>\<open>documentService.uploadDocument\<close>. Of \<^verbatim>\<open>storageService.saveFile\<close> only the size
  limit is modelled (\<open>maxFileSizeMB\<close> is \<^verbatim>\<open>config.storage.maxFileSizeMB\<close>); the file
  system is taken to accept the write.
\<close>

definition documentService_uploadDocument ::
  "timestamp \<Rightarrow> timestamp \<Rightarrow> nat \<Rightarrow> uuid \<Rightarrow> uuid \<Rightarrow> UploadedFile \<Rightarrow> uuid \<Rightarrow> UserRole
     \<Rightarrow> error option \<Rightarrow> database \<Rightarrow> document_row service_result" where
  "documentService_uploadDocument t_document t_event maxFileSizeMB new_id caseId file uploaderId
       userRole notifications_settled db =
     (case caseRepository_findById caseId db of
        None \<Rightarrow> (Inl (NotFoundError ''Case not found''), db, [])
      | Some caseRecord \<Rightarrow>
          (case checkDocumentAccess (c_client_id caseRecord) (c_lawyer_id caseRecord)
                  uploaderId userRole db of
             Some err \<Rightarrow> (Inl err, db, [])
           | None \<Rightarrow>
               if \<not> isAllowedMimeType (f_mimetype file) then
                 (Inl (BadRequestError (''File type '' @ f_mimetype file @ '' is not allowed'')), db, [])
               else if maxFileSizeMB * 1024 * 1024 < f_size file then
                 (Inl (PlainError (''File size exceeds maximum allowed (''
                                     @ string_of_nat maxFileSizeMB @ ''MB)'')), db, [])
               else
                 (let document = \<lparr>d_id = new_id, d_case_id = caseId, d_uploaded_by = uploaderId,
                                   d_original_filename = f_originalname file,
                                   d_mime_type = f_mimetype file, d_file_size = f_size file,
                                   d_created_at = t_document\<rparr>;
                      db1 = db\<lparr>documents := documents db @ [document]\<rparr>
                  in case caseEventRepository_create t_event caseId (Some DOCUMENT_UPLOADED)
                            (Some uploaderId)
                            (''Document uploaded: '' @ f_originalname file) db1 of
                       (Inl err, db2) \<Rightarrow> (Inl err, db2, [])
                     | (Inr ev, db2) \<Rightarrow>
                         (Inr document, db2, LogInfo # detached_catch notifications_settled))))"


section \<open>Intake (intakeService)\<close>

definition getCaseTypePrefix :: "CaseType \<Rightarrow> string" where
  "getCaseTypePrefix caseType =
     (case caseType of
        PERSONAL_INJURY \<Rightarrow> ''PI'' | FAMILY_LAW \<Rightarrow> ''FL'' | CRIMINAL_DEFENSE \<Rightarrow> ''CD''
      | ESTATE_PLANNING \<Rightarrow> ''EP'' | BUSINESS_LAW \<Rightarrow> ''BL'' | REAL_ESTATE \<Rightarrow> ''RE''
      | IMMIGRATION \<Rightarrow> ''IM'' | BANKRUPTCY \<Rightarrow> ''BK'' | EMPLOYMENT \<Rightarrow> ''EM'' | OTHER \<Rightarrow> ''OT'')"


text \<open>\<^verbatim>\<open>String.prototype.split(sep)\<close> for a one-character separator.\<close>

fun split_on :: "char \<Rightarrow> string \<Rightarrow> string list" where
  "split_on sep [] = [[]]"
| "split_on sep (c # cs) =
     (if c = sep then [] # split_on sep cs
      else (case split_on sep cs of [] \<Rightarrow> [[c]] | w # ws \<Rightarrow> (c # w) # ws))"

text \<open>Array indexing: \<^verbatim>\<open>undefined\<close> (\<open>None\<close>) past the end.\<close>

definition nth_opt :: "'a list \<Rightarrow> nat \<Rightarrow> 'a option" where
  "nth_opt xs i = (if i < length xs then Some (xs ! i) else None)"

definition is_digit :: "char \<Rightarrow> bool" where
  "is_digit c \<longleftrightarrow> c \<in> set ''0123456789''"

definition digit_value :: "char \<Rightarrow> nat" where
  "digit_value c = of_char c - 48"

definition digits_value :: "string \<Rightarrow> nat" where
  "digits_value ds = foldl (\<lambda>acc c. 10 * acc + digit_value c) 0 ds"

text \<open>
  \<^verbatim>\<open>parseInt(s, 10)\<close>: leading white space is skipped, one sign is accepted, the
  longest run of decimal digits is read; \<open>None\<close> is \<^verbatim>\<open>NaN\<close>. Case numbers hold at
  most 20 characters, so the value is an exact integer.
\<close>

definition js_parseInt :: "string \<Rightarrow> int option" where
  "js_parseInt s =
     (let t = dropWhile js_whitespace s;
          neg = (case t of [] \<Rightarrow> False | c # r \<Rightarrow> c = CHR ''-'');
          u = (case t of [] \<Rightarrow> [] | c # r \<Rightarrow> if c = CHR ''-'' \<or> c = CHR ''+'' then r else t);
          ds = takeWhile is_digit u
      in if ds = [] then None
         else Some (if neg then - int (digits_value ds) else int (digits_value ds)))"

text \<open>\<^verbatim>\<open>Number.prototype.toString()\<close> on an integer or \<^verbatim>\<open>NaN\<close>.\<close>

definition js_number_toString :: "int option \<Rightarrow> string" where
  "js_number_toString v =
     (case v of
        None \<Rightarrow> ''NaN''
      | Some i \<Rightarrow> if i < 0 then CHR ''-'' # string_of_nat (nat (- i)) else string_of_nat (nat i))"

text \<open>
  \<^verbatim>\<open>intakeService.generateCaseNumber\<close>. \<open>year\<close> is \<^verbatim>\<open>new Date().getFullYear()\<close>.
  The \<^verbatim>\<open>LIKE\<close> pattern is \<^verbatim>\<open>{year}-{prefix}-%\<close>; its fixed part holds no wildcard,
  so it selects the case numbers that start with it. \<^verbatim>\<open>ORDER BY created_at DESC LIMIT 1\<close>
  keeps a row with the greatest \<^verbatim>\<open>created_at\<close>; among equal ones PostgreSQL may
  return any, the model returns the first in table order.
\<close>

definition intakeService_generateCaseNumber :: "nat \<Rightarrow> CaseType \<Rightarrow> case_row list \<Rightarrow> string" where
  "intakeService_generateCaseNumber year caseType table =
     (let typePrefix = getCaseTypePrefix caseType;
          pattern_start = string_of_nat year @ ''-'' @ typePrefix @ ''-'';
          rows = take 1 (sort_key (\<lambda>c. - c_created_at c)
                          (filter (\<lambda>c. prefix pattern_start (c_case_number c)) table));
          sequence =
            (case rows of
               [] \<Rightarrow> Some 1
             | lastRow # rest \<Rightarrow>
                 (case nth_opt (split_on (CHR ''-'') (c_case_number lastRow)) 2 of
                    None \<Rightarrow> None
                  | Some segment \<Rightarrow>
                      (case js_parseInt segment of
                         None \<Rightarrow> None
                       | Some lastSequence \<Rightarrow> Some (lastSequence + 1))))
      in string_of_nat year @ ''-'' @ typePrefix @ ''-''
           @ padStart 4 (CHR ''0'') (js_number_toString sequence))"





section \<open>In-app notifications (notificationService)\<close>

record CreateNotificationInput =
  ni_userId :: uuid
  ni_type :: NotificationType
  ni_title :: string
  ni_message :: string
  ni_caseId :: "uuid option"

text \<open>
  \<^verbatim>\<open>notificationService.create\<close>: \<open>new_id\<close> is the generated primary key, \<open>now\<close> the
  statement's \<^verbatim>\<open>CURRENT_TIMESTAMP\<close>.
\<close>

definition notificationService_create ::
  "timestamp \<Rightarrow> uuid \<Rightarrow> CreateNotificationInput \<Rightarrow> database \<Rightarrow> notification_row \<times> database" where
  "notificationService_create now new_id input db =
     (let n = \<lparr>n_id = new_id, n_user_id = ni_userId input, n_type = ni_type input,
                n_title = ni_title input, n_message = ni_message input,
                n_case_id = ni_caseId input, n_is_read = False, n_created_at = now,
                n_read_at = None\<rparr>
      in (n, db\<lparr>notifications := notifications db @ [n]\<rparr>))"

definition notificationService_markAsRead ::
  "timestamp \<Rightarrow> uuid \<Rightarrow> uuid \<Rightarrow> database \<Rightarrow> notification_row option \<times> database" where
  "notificationService_markAsRead now notificationId userId db =
     (let hit = (\<lambda>n. n_id n = notificationId \<and> n_user_id n = userId);
          rows' = map (\<lambda>n. if hit n then n\<lparr>n_is_read := True, n_read_at := Some now\<rparr> else n)
                    (notifications db)
      in (queryOne (filter hit rows'), db\<lparr>notifications := rows'\<rparr>))"

text \<open>
  \<^verbatim>\<open>notificationService.markAllAsRead\<close>: the statement has no \<^verbatim>\<open>RETURNING\<close> clause,
  so the driver's row list is empty and the returned length is \<open>0\<close>.
\<close>

definition notificationService_markAllAsRead ::
  "timestamp \<Rightarrow> uuid \<Rightarrow> database \<Rightarrow> nat \<times> database" where
  "notificationService_markAllAsRead now userId db =
     (let hit = (\<lambda>n. n_user_id n = userId \<and> n_is_read n = False);
          rows' = map (\<lambda>n. if hit n then n\<lparr>n_is_read := True, n_read_at := Some now\<rparr> else n)
                    (notifications db)
      in (0, db\<lparr>notifications := rows'\<rparr>))"

definition notificationService_delete :: "uuid \<Rightarrow> uuid \<Rightarrow> database \<Rightarrow> bool \<times> database" where
  "notificationService_delete notificationId userId db =
     (let hit = (\<lambda>n. n_id n = notificationId \<and> n_user_id n = userId);
          deleted = filter hit (notifications db)
      in (0 < length deleted,
          db\<lparr>notifications := filter (\<lambda>n. \<not> hit n) (notifications db)\<rparr>))"

text \<open>A \<^verbatim>\<open>LEFT JOIN\<close> keeps the left row once, with \<^verbatim>\<open>NULL\<close>s, when nothing matches.\<close>

definition left_join :: "'a list \<Rightarrow> 'a option list" where
  "left_join matches = (if matches = [] then [None] else map Some matches)"

text \<open>The row that the query of \<^verbatim>\<open>notifyNewMessage\<close> selects.\<close>

record message_case_info =
  ci_title :: string
  ci_client_user_id :: uuid
  ci_client_email :: string
  ci_client_first_name :: string
  ci_client_last_name :: string
  ci_lawyer_user_id :: "uuid option"
  ci_lawyer_email :: "string option"
  ci_lawyer_first_name :: "string option"
  ci_lawyer_last_name :: "string option"

definition message_case_query :: "uuid \<Rightarrow> database \<Rightarrow> message_case_info list" where
  "message_case_query caseId db =
     [\<lparr>ci_title = c_title c, ci_client_user_id = cl_user_id cl, ci_client_email = u_email cu,
        ci_client_first_name = u_first_name cu, ci_client_last_name = u_last_name cu,
        ci_lawyer_user_id = map_option l_user_id l, ci_lawyer_email = map_option u_email lu,
        ci_lawyer_first_name = map_option u_first_name lu,
        ci_lawyer_last_name = map_option u_last_name lu\<rparr>.
      c \<leftarrow> cases db,
      cl \<leftarrow> filter (\<lambda>cl. c_client_id c = cl_id cl) (clients db),
      cu \<leftarrow> filter (\<lambda>cu. cl_user_id cl = u_id cu) (users db),
      l \<leftarrow> left_join (filter (\<lambda>l. c_lawyer_id c = Some (l_id l)) (lawyers db)),
      lu \<leftarrow> left_join (case l of None \<Rightarrow> []
                         | Some lw \<Rightarrow> filter (\<lambda>lu. l_user_id lw = u_id lu) (users db)),
      c_id c = caseId]"

text \<open>
  An email handed to \<^verbatim>\<open>emailNotificationService\<close> without awaiting it, with a logging
  \<^verbatim>\<open>.catch\<close>. A \<^verbatim>\<open>NULL\<close> column is interpolated by JavaScript as the text
  \<^verbatim>\<open>null\<close>.
\<close>

record email_request =
  em_to :: "string option"
  em_recipientName :: string
  em_recipient_isClient :: bool

definition js_text :: "string option \<Rightarrow> string" where
  "js_text v = (case v of None \<Rightarrow> ''null'' | Some s \<Rightarrow> s)"

text \<open>
  \<^verbatim>\<open>notificationService.notifyNewMessage\<close>: the database after it, the emails it
  dispatched and the log lines it wrote.
\<close>

definition notifyNewMessage ::
  "timestamp \<Rightarrow> uuid \<Rightarrow> uuid \<Rightarrow> string \<Rightarrow> uuid \<Rightarrow> string \<Rightarrow> database
     \<Rightarrow> database \<times> email_request list \<times> log_level list" where
  "notifyNewMessage now new_id caseId caseNumber senderId senderName db =
     (case message_case_query caseId db of
        [] \<Rightarrow> (db, [], [LogWarn])
      | caseInfo # rest \<Rightarrow>
          (let isFromClient = (senderId = ci_client_user_id caseInfo)
           in if isFromClient \<and> ci_lawyer_user_id caseInfo \<noteq> None then
                (case ci_lawyer_user_id caseInfo of
                   None \<Rightarrow> (db, [], [])
                 | Some lawyer_user_id \<Rightarrow>
                     (let lawyerName = js_text (ci_lawyer_first_name caseInfo) @ '' ''
                                         @ js_text (ci_lawyer_last_name caseInfo);
                          (n, db1) = notificationService_create now new_id
                                       \<lparr>ni_userId = lawyer_user_id,
                                        ni_type = MESSAGE_RECEIVED, ni_title = ''New Message'',
                                        ni_message = senderName @ '' sent a message on case ''
                                                       @ caseNumber @ ''.'',
                                        ni_caseId = Some caseId\<rparr> db
                      in (db1,
                          [\<lparr>em_to = ci_lawyer_email caseInfo, em_recipientName = lawyerName,
                            em_recipient_isClient = False\<rparr>],
                          [LogInfo])))
              else if \<not> isFromClient then
                (let clientName = ci_client_first_name caseInfo @ '' ''
                                    @ ci_client_last_name caseInfo;
                     (n, db1) = notificationService_create now new_id
                                  \<lparr>ni_userId = ci_client_user_id caseInfo,
                                   ni_type = MESSAGE_RECEIVED, ni_title = ''New Message'',
                                   ni_message = senderName @ '' sent a message on case ''
                                                  @ caseNumber @ ''.'',
                                   ni_caseId = Some caseId\<rparr> db
                 in (db1,
                     [\<lparr>em_to = Some (ci_client_email caseInfo), em_recipientName = clientName,
                       em_recipient_isClient = True\<rparr>],
                     [LogInfo]))
              else (db, [], [])))"


section \<open>Scheduled jobs\<close>

subsection \<open>Inactivity check (inactivityCheckJob)\<close>

definition DAY_MS :: int where
  "DAY_MS = 24 * 60 * 60 * 1000"

record InactiveCase =
  ic_id :: uuid
  ic_case_number :: string
  ic_title :: string
  ic_status :: CaseStatus
  ic_last_activity_at :: timestamp
  ic_last_inactivity_notification :: "timestamp option"
  ic_client_user_id :: uuid
  ic_client_email :: string
  ic_client_first_name :: string
  ic_client_last_name :: string
  ic_lawyer_name :: string

text \<open>
  The \<^verbatim>\<open>WHERE\<close> clause of \<^verbatim>\<open>getInactiveCasesForNotification\<close>; \<open>now\<close> is
  \<^verbatim>\<open>NOW()\<close> and one day is taken as 24 hours.
\<close>

definition needs_inactivity_notification :: "timestamp \<Rightarrow> int \<Rightarrow> case_row \<Rightarrow> bool" where
  "needs_inactivity_notification now daysThreshold c \<longleftrightarrow>
     c_status c \<notin> {CLOSED, ARCHIVED, RESOLVED} \<and>
     c_last_activity_at c < now - DAY_MS * daysThreshold \<and>
     (case c_last_inactivity_notification c of
        None \<Rightarrow> True
      | Some notified \<Rightarrow> notified < now - 7 * DAY_MS)"

text \<open>
  \<^verbatim>\<open>inactivityCheckJob.getInactiveCasesForNotification\<close>. \<^verbatim>\<open>CONCAT\<close> skips
  \<^verbatim>\<open>NULL\<close>s, so the lawyer's name of a case without a lawyer is one space.
\<close>

definition getInactiveCasesForNotification :: "timestamp \<Rightarrow> int \<Rightarrow> database \<Rightarrow> InactiveCase list" where
  "getInactiveCasesForNotification now daysThreshold db =
     sort_key ic_last_activity_at
       [\<lparr>ic_id = c_id c, ic_case_number = c_case_number c, ic_title = c_title c,
          ic_status = c_status c, ic_last_activity_at = c_last_activity_at c,
          ic_last_inactivity_notification = c_last_inactivity_notification c,
          ic_client_user_id = u_id u, ic_client_email = u_email u,
          ic_client_first_name = u_first_name u, ic_client_last_name = u_last_name u,
          ic_lawyer_name = (case lu of None \<Rightarrow> '' ''
                            | Some w \<Rightarrow> u_first_name w @ '' '' @ u_last_name w)\<rparr>.
        c \<leftarrow> cases db,
        cl \<leftarrow> filter (\<lambda>cl. c_client_id c = cl_id cl) (clients db),
        u \<leftarrow> filter (\<lambda>u. cl_user_id cl = u_id u) (users db),
        l \<leftarrow> left_join (filter (\<lambda>l. c_lawyer_id c = Some (l_id l)) (lawyers db)),
        lu \<leftarrow> left_join (case l of None \<Rightarrow> []
                           | Some lw \<Rightarrow> filter (\<lambda>lu. l_user_id lw = u_id lu) (users db)),
        needs_inactivity_notification now daysThreshold c]"

definition updateNotificationTimestamp :: "timestamp \<Rightarrow> uuid \<Rightarrow> database \<Rightarrow> database" where
  "updateNotificationTimestamp now caseId db =
     db\<lparr>cases := map (\<lambda>c. if c_id c = caseId
                          then c\<lparr>c_last_inactivity_notification := Some now\<rparr> else c)
                    (cases db)\<rparr>"

text \<open>
  What the environment decides while one case is processed: whether the notification
  statement or the stamp statement fails, when each of the three statements runs, the key
  of the new notification and whether the email was delivered (\<^verbatim>\<open>sendEmail\<close> resolves
  to a boolean that the job ignores).
\<close>

record item_env =
  notification_fails :: bool
  stamp_fails :: bool
  ie_t_notification :: timestamp
  ie_t_stamp :: timestamp
  ie_t_event :: timestamp
  notification_id :: uuid
  email_delivered :: bool

datatype job_log = JobStarted | ItemsFound nat | ItemDone uuid | ItemSkipped uuid | ItemFailed uuid
  | JobCompleted nat nat

record job_state =
  js_db :: database
  successCount :: nat
  failCount :: nat
  js_emails :: "(string \<times> bool) list"
  js_log :: "job_log list"

text \<open>
  The body of the \<^verbatim>\<open>for\<close> loop of \<^verbatim>\<open>inactivityCheckJob.run\<close>:
  \<^verbatim>\<open>sendInactivityNotification\<close>, \<^verbatim>\<open>updateNotificationTimestamp\<close> and
  \<^verbatim>\<open>logInactivityEvent\<close> inside \<^verbatim>\<open>try\<close>, the counter of failures in \<^verbatim>\<open>catch\<close>.
  \<^verbatim>\<open>logInactivityEvent\<close> passes \<^verbatim>\<open>CaseEventType.DEADLINE_REMINDER\<close>, which the
  enumeration does not have: the value is \<^verbatim>\<open>undefined\<close>, here \<open>None\<close>, and the
  insert fails after the notification and the stamp.
\<close>

definition item_failed :: "uuid \<Rightarrow> job_state \<Rightarrow> job_state" where
  "item_failed ident st = st\<lparr>failCount := failCount st + 1, js_log := js_log st @ [ItemFailed ident]\<rparr>"

definition item_done :: "uuid \<Rightarrow> job_state \<Rightarrow> job_state" where
  "item_done ident st = st\<lparr>successCount := successCount st + 1, js_log := js_log st @ [ItemDone ident]\<rparr>"

definition process_inactive_case :: "(uuid \<Rightarrow> item_env) \<Rightarrow> job_state \<Rightarrow> InactiveCase \<Rightarrow> job_state" where
  "process_inactive_case env st caseRecord =
     (let e = env (ic_id caseRecord) in
      if notification_fails e then item_failed (ic_id caseRecord) st
      else
        (let (n, db1) = notificationService_create (ie_t_notification e) (notification_id e)
                          \<lparr>ni_userId = ic_client_user_id caseRecord, ni_type = SYSTEM_ALERT,
                           ni_title = ''Case Update Needed'',
                           ni_message = ''Your case '' @ ic_case_number caseRecord
                                          @ '' has had no activity for ''
                                          @ js_number_toString
                                              (Some ((ie_t_notification e - ic_last_activity_at caseRecord)
                                                       div DAY_MS))
                                          @ '' days. Please log in to review or contact your attorney.'',
                           ni_caseId = Some (ic_id caseRecord)\<rparr> (js_db st);
             st1 = st\<lparr>js_db := db1,
                      js_emails := js_emails st @ [(ic_client_email caseRecord, email_delivered e)]\<rparr>
         in if stamp_fails e then item_failed (ic_id caseRecord) st1
            else
              (let st2 = st1\<lparr>js_db := updateNotificationTimestamp (ie_t_stamp e) (ic_id caseRecord)
                                         (js_db st1)\<rparr>
               in case caseEventRepository_create (ie_t_event e) (ic_id caseRecord) None None
                         (''Inactivity reminder sent to client (''
                            @ js_number_toString
                                (Some ((ie_t_event e - ic_last_activity_at caseRecord) div DAY_MS))
                            @ '' days inactive)'') (js_db st2) of
                    (Inl err, db3) \<Rightarrow> item_failed (ic_id caseRecord) (st2\<lparr>js_db := db3\<rparr>)
                  | (Inr ev, db3) \<Rightarrow> item_done (ic_id caseRecord) (st2\<lparr>js_db := db3\<rparr>))))"

text \<open>
  \<^verbatim>\<open>inactivityCheckJob.run\<close>. \<open>configured\<close> is
  \<^verbatim>\<open>config.business.inactivityDaysThreshold\<close>, \<open>None\<close> when it is \<^verbatim>\<open>NaN\<close>.
\<close>

definition inactivity_threshold :: "int option \<Rightarrow> int" where
  "inactivity_threshold configured =
     (case configured of None \<Rightarrow> 21 | Some d \<Rightarrow> if d = 0 then 21 else d)"

definition inactivityCheckJob_run ::
  "timestamp \<Rightarrow> int option \<Rightarrow> (uuid \<Rightarrow> item_env) \<Rightarrow> database \<Rightarrow> job_state" where
  "inactivityCheckJob_run now configured env db =
     (let daysThreshold = inactivity_threshold configured;
          inactiveCases = getInactiveCasesForNotification now daysThreshold db;
          st0 = \<lparr>js_db = db, successCount = 0, failCount = 0, js_emails = [],
                 js_log = [JobStarted, ItemsFound (length inactiveCases)]\<rparr>;
          st = foldl (process_inactive_case env) st0 inactiveCases
      in st\<lparr>js_log := js_log st @ [JobCompleted (successCount st) (failCount st)]\<rparr>)"

subsection \<open>Weekly digest (weeklySummaryJob)\<close>

text \<open>
  \<^verbatim>\<open>getActiveLawyers\<close>: \<^verbatim>\<open>ORDER BY u.last_name, u.first_name\<close> is taken as the
  order of the code units.
\<close>

definition getActiveLawyers :: "database \<Rightarrow> (lawyer_row \<times> user_row) list" where
  "getActiveLawyers db =
     sort_key (\<lambda>(l, u). (u_last_name u, u_first_name u))
       [(l, u). l \<leftarrow> lawyers db, u \<leftarrow> filter (\<lambda>u. l_user_id l = u_id u) (users db),
                u_is_active u \<and> l_is_available l]"

text \<open>
  Of \<^verbatim>\<open>getLawyerSummary\<close> only \<^verbatim>\<open>totalCases\<close>, the number of rows of its query,
  decides what the job does.
\<close>

definition lawyer_totalCases :: "uuid \<Rightarrow> database \<Rightarrow> nat" where
  "lawyer_totalCases lawyerId db =
     length [c. c \<leftarrow> cases db,
                cl \<leftarrow> filter (\<lambda>cl. c_client_id c = cl_id cl) (clients db),
                u \<leftarrow> filter (\<lambda>u. cl_user_id cl = u_id u) (users db),
                c_lawyer_id c = Some lawyerId]"

record lawyer_env =
  summary_fails :: bool
  send_throws :: bool
  summary_delivered :: bool

definition process_lawyer ::
  "(uuid \<Rightarrow> lawyer_env) \<Rightarrow> database \<Rightarrow> job_state \<Rightarrow> lawyer_row \<times> user_row \<Rightarrow> job_state" where
  "process_lawyer env db st lawyer =
     (let e = env (l_id (fst lawyer)) in
      if summary_fails e then item_failed (l_id (fst lawyer)) st
      else if lawyer_totalCases (l_id (fst lawyer)) db = 0 then
        st\<lparr>js_log := js_log st @ [ItemSkipped (l_id (fst lawyer))]\<rparr>
      else if send_throws e then item_failed (l_id (fst lawyer)) st
      else item_done (l_id (fst lawyer))
             (st\<lparr>js_emails := js_emails st @ [(u_email (snd lawyer), summary_delivered e)]\<rparr>))"

definition weeklySummaryJob_run :: "(uuid \<Rightarrow> lawyer_env) \<Rightarrow> database \<Rightarrow> job_state" where
  "weeklySummaryJob_run env db =
     (let lawyers = getActiveLawyers db;
          st0 = \<lparr>js_db = db, successCount = 0, failCount = 0, js_emails = [],
                 js_log = [JobStarted, ItemsFound (length lawyers)]\<rparr>;
          st = foldl (process_lawyer env db) st0 lawyers
      in st\<lparr>js_log := js_log st @ [JobCompleted (successCount st) (failCount st)]\<rparr>)"


section \<open>Template rendering (emailTemplateService)\<close>

definition is_word_char :: "char \<Rightarrow> bool" where
  "is_word_char c \<longleftrightarrow>
     c \<in> set ''ABCDEFGHIJKLMNOPQRSTUVWXYZabcdefghijklmnopqrstuvwxyz0123456789_''"

text \<open>
  The replacement text of \<^verbatim>\<open>String.prototype.replace\<close> for a pattern without
  capture groups: \<^verbatim>\<open>$$\<close> is a dollar sign, \<^verbatim>\<open>$&\<close> the matched text, \<^verbatim>\<open>$`\<close> the
  text before the match and \<^verbatim>\<open>$'\<close> the text after it; any other character is
  copied.
\<close>

fun expand_replacement :: "string \<Rightarrow> string \<Rightarrow> string \<Rightarrow> string \<Rightarrow> string" where
  "expand_replacement matched before after [] = []"
| "expand_replacement matched before after [c] = [c]"
| "expand_replacement matched before after (c # d # rest) =
     (if c = CHR ''$'' \<and> d = CHR ''$'' then CHR ''$'' # expand_replacement matched before after rest
      else if c = CHR ''$'' \<and> d = CHR ''&'' then matched @ expand_replacement matched before after rest
      else if c = CHR ''$'' \<and> d = CHR 0x60 then before @ expand_replacement matched before after rest
      else if c = CHR ''$'' \<and> d = CHR 0x27 then after @ expand_replacement matched before after rest
      else c # expand_replacement matched before after (d # rest))"

text \<open>
  \<^verbatim>\<open>s.replace(new RegExp(p, 'g'), replacement)\<close> for a pattern \<open>p\<close> that matches only
  the text \<open>pat\<close> itself: the matches are found from left to right without overlap;
  \<open>before\<close> is the part of the subject already passed.
\<close>

fun replace_literal :: "string \<Rightarrow> string \<Rightarrow> string \<Rightarrow> string \<Rightarrow> string" where
  "replace_literal pat replacement before [] = []"
| "replace_literal pat replacement before (c # cs) =
     (if pat \<noteq> [] \<and> prefix pat (c # cs) then
        expand_replacement pat before (drop (length pat) (c # cs)) replacement
          @ replace_literal pat replacement (before @ pat) (drop (length pat) (c # cs))
      else c # replace_literal pat replacement (before @ [c]) cs)"

text \<open>
  The loop over \<^verbatim>\<open>Object.entries(variables)\<close>; \<open>entries\<close> is that list, in its
  order. For a key of word characters the pattern \<^verbatim>\<open>\{\{key\}\}\<close> matches the text
  \<^verbatim>\<open>{{key}}\<close> only; on strings \<^verbatim>\<open>value || ''\<close> is the value. For any other key the
  text is a regular expression of its own. A key of word characters and \<^verbatim>\<open>(\<close> that holds a
  \<^verbatim>\<open>(\<close> opens a group that nothing closes: \<^verbatim>\<open>new RegExp\<close> throws a
  \<^verbatim>\<open>SyntaxError\<close>, the value \<open>None\<close>. What the engine does with the remaining keys
  is the parameter \<open>RegExp_replace key subject replacement\<close>, \<open>None\<close> when it throws.
\<close>

definition unterminated_group :: "string \<Rightarrow> bool" where
  "unterminated_group key \<longleftrightarrow>
     CHR ''('' \<in> set key \<and> list_all (\<lambda>c. is_word_char c \<or> c = CHR ''('') key"

fun substitute_entries ::
  "(string \<Rightarrow> string \<Rightarrow> string \<Rightarrow> string option) \<Rightarrow> (string \<times> string) list \<Rightarrow> string
     \<Rightarrow> string option" where
  "substitute_entries RegExp_replace [] rendered = Some rendered"
| "substitute_entries RegExp_replace ((key, val) # entries) rendered =
     (if list_all is_word_char key then
        substitute_entries RegExp_replace entries
          (replace_literal (''{{'' @ key @ ''}}'') val [] rendered)
      else if unterminated_group key then None
      else
        (case RegExp_replace key rendered val of
           None \<Rightarrow> None
         | Some replaced \<Rightarrow> substitute_entries RegExp_replace entries replaced))"

text \<open>
  The head \<^verbatim>\<open>\{\{#if\s+(\w+)\}\}\<close> at the start of a text: the name captured and the
  text after the head.
\<close>

definition match_if_head :: "string \<Rightarrow> (string \<times> string) option" where
  "match_if_head s =
     (if prefix ''{{#if'' s then
        (let r1 = drop 5 s;
             spaces = takeWhile js_whitespace r1;
             r2 = dropWhile js_whitespace r1;
             varName = takeWhile is_word_char r2;
             r3 = dropWhile is_word_char r2
         in if spaces \<noteq> [] \<and> varName \<noteq> [] \<and> prefix ''}}'' r3
            then Some (varName, drop 2 r3) else None)
      else None)"

text \<open>
  The lazy \<^verbatim>\<open>([\s\S]*?)\{\{\/if\}\}\<close>: the text up to the first \<^verbatim>\<open>{{/if}}\<close> and the
  text after it.
\<close>

fun match_if_body :: "string \<Rightarrow> (string \<times> string) option" where
  "match_if_body [] = None"
| "match_if_body (c # cs) =
     (if prefix ''{{/if}}'' (c # cs) then Some ([], drop 7 (c # cs))
      else (case match_if_body cs of
              None \<Rightarrow> None
            | Some (content, rest) \<Rightarrow> Some (c # content, rest)))"

lemma match_if_head_shorter:
  assumes "match_if_head s = Some (varName, body)"
  shows "length body < length s"
proof -
  let ?r3 = "dropWhile is_word_char (dropWhile js_whitespace (drop 5 s))"
  from assms have body: "body = drop 2 ?r3" and head: "prefix ''{{#if'' s"
    by (auto simp add: match_if_head_def Let_def split: if_splits)
  have "length ?r3 \<le> length (dropWhile js_whitespace (drop 5 s))"
    by (rule length_dropWhile_le)
  also have "\<dots> \<le> length (drop 5 s)"
    by (rule length_dropWhile_le)
  finally have "length ?r3 \<le> length s - 5" by simp
  moreover from head have "5 \<le> length s"
    by (auto simp add: prefix_def)
  ultimately show ?thesis
    using body by simp
qed

lemma match_if_body_shorter: "match_if_body s = Some (content, rest) \<Longrightarrow> length rest < length s"
  by (induction s arbitrary: content) (auto split: if_splits option.splits)

text \<open>
  The second \<^verbatim>\<open>replace\<close>, with the callback's test \<^verbatim>\<open>variables[varName]\<close> as
  \<open>truthy\<close>.
\<close>

function replace_conditionals :: "(string \<Rightarrow> bool) \<Rightarrow> string \<Rightarrow> string" where
  "replace_conditionals truthy [] = []"
| "replace_conditionals truthy (c # cs) =
     (case match_if_head (c # cs) of
        None \<Rightarrow> c # replace_conditionals truthy cs
      | Some (varName, body) \<Rightarrow>
          (case match_if_body body of
             None \<Rightarrow> c # replace_conditionals truthy cs
           | Some (content, rest) \<Rightarrow>
               (if truthy varName then content else []) @ replace_conditionals truthy rest))"
  by pat_completeness auto
termination
proof (relation "measure (\<lambda>(truthy, s). length s)")
  show "wf (measure (\<lambda>(truthy, s). length s))" by simp
next
  fix truthy c cs
  show "((truthy, cs), (truthy, c # cs)) \<in> measure (\<lambda>(truthy, s). length s)" by simp
next
  fix truthy c cs x2 x y
  assume "match_if_head (c # cs) = Some x2" "(x, y) = x2"
  show "((truthy, cs), (truthy, c # cs)) \<in> measure (\<lambda>(truthy, s). length s)" by simp
next
  fix truthy :: "string \<Rightarrow> bool" and c cs x2 varName body x2a content rest
  assume "match_if_head (c # cs) = Some x2" "(varName, body) = x2"
    "match_if_body body = Some x2a" "(content, rest) = x2a"
  then have "length body < length (c # cs)" "length rest < length body"
    using match_if_head_shorter[of "c # cs" varName body]
          match_if_body_shorter[of body content rest] by auto
  then show "((truthy, rest), (truthy, c # cs)) \<in> measure (\<lambda>(truthy, s). length s)" by simp
qed

declare replace_conditionals.simps [simp del]

text \<open>
  \<^verbatim>\<open>variables[varName]\<close> reads an own property or, failing that, a property inherited
  from \<^verbatim>\<open>Object.prototype\<close>, which is a function or an object and so truthy.
\<close>

definition object_prototype_keys :: "string list" where
  "object_prototype_keys =
     [''constructor'', ''hasOwnProperty'', ''isPrototypeOf'', ''propertyIsEnumerable'',
      ''toLocaleString'', ''toString'', ''valueOf'', ''__proto__'', ''__defineGetter__'',
      ''__defineSetter__'', ''__lookupGetter__'', ''__lookupSetter__'']"

definition variable_truthy :: "(string \<times> string) list \<Rightarrow> string \<Rightarrow> bool" where
  "variable_truthy variables varName =
     (case map_of variables varName of
        Some v \<Rightarrow> v \<noteq> []
      | None \<Rightarrow> varName \<in> set object_prototype_keys)"

datatype render_error = SyntaxError

definition renderTemplate ::
  "(string \<Rightarrow> string \<Rightarrow> string \<Rightarrow> string option) \<Rightarrow> string \<Rightarrow> (string \<times> string) list
     \<Rightarrow> render_error + string" where
  "renderTemplate RegExp_replace template variables =
     (case substitute_entries RegExp_replace variables template of
        None \<Rightarrow> Inl SyntaxError
      | Some rendered \<Rightarrow> Inr (replace_conditionals (variable_truthy variables) rendered))"


section \<open>Notions used in the statements, and example data\<close>

text \<open>A service call succeeded when it resolved to a value; \<open>state_after\<close> is the database it left.\<close>

definition succeeded :: "'a service_result \<Rightarrow> bool" where
  "succeeded r = (case fst r of Inl err \<Rightarrow> False | Inr v \<Rightarrow> True)"

definition state_after :: "'a service_result \<Rightarrow> database" where
  "state_after r = fst (snd r)"

text \<open>
  Between \<open>db\<close> and \<open>db'\<close> exactly one event was appended to the event log: of the given
  type, for the given case, created at \<open>t\<close>.
\<close>

definition case_event_appended :: "database \<Rightarrow> database \<Rightarrow> uuid \<Rightarrow> CaseEventType \<Rightarrow> timestamp \<Rightarrow> bool" where
  "case_event_appended db db' caseId eventType t \<longleftrightarrow>
     (case rev (case_events db') of
        [] \<Rightarrow> False
      | ev # earlier \<Rightarrow>
          rev earlier = case_events db \<and> ev_case_id ev = caseId \<and>
          ev_event_type ev = eventType \<and> ev_created_at ev = t)"

definition last_activity_of :: "uuid \<Rightarrow> database \<Rightarrow> timestamp option" where
  "last_activity_of caseId db = map_option c_last_activity_at (caseRepository_findById caseId db)"

text \<open>
  A small database: the client Ana (user 1, client 10), the lawyer Lea (user 2,
  lawyer 20), the administrator Sam (user 3) and one new case of Ana's without a lawyer,
  created at time 1000.
\<close>

definition example_case :: case_row where
  "example_case =
     \<lparr>c_id = 100, c_case_number = ''CASE-2025-00001'', c_client_id = 10, c_lawyer_id = None,
      c_title = ''Lease dispute'', c_description = None, c_status = NEW, c_priority = 3,
      c_case_type = Some ''real_estate'', c_closed_at = None, c_last_activity_at = 1000,
      c_created_at = 1000, c_last_inactivity_notification = None\<rparr>"

definition example_db :: database where
  "example_db =
     \<lparr>users =
        [\<lparr>u_id = 1, u_email = ''ana@example.com'', u_role = CLIENT, u_first_name = ''Ana'',
          u_last_name = ''Diaz'', u_is_active = True\<rparr>,
         \<lparr>u_id = 2, u_email = ''lea@example.com'', u_role = LAWYER, u_first_name = ''Lea'',
          u_last_name = ''Park'', u_is_active = True\<rparr>,
         \<lparr>u_id = 3, u_email = ''sam@example.com'', u_role = ADMIN, u_first_name = ''Sam'',
          u_last_name = ''Roe'', u_is_active = True\<rparr>],
      clients = [\<lparr>cl_id = 10, cl_user_id = 1\<rparr>],
      lawyers = [\<lparr>l_id = 20, l_user_id = 2, l_is_available = True\<rparr>],
      cases = [example_case],
      case_events =
        [\<lparr>ev_case_id = 100, ev_event_type = CASE_CREATED, ev_actor_id = Some 3,
          ev_description = ''Case created: Lease dispute'', ev_created_at = 1000\<rparr>],
      messages = [], documents = [], notifications = [], case_number_seq = 1\<rparr>"

definition status_update :: "CaseStatus \<Rightarrow> UpdateCaseData" where
  "status_update st =
     \<lparr>upd_lawyer_id = None, upd_title = None, upd_description = None, upd_status = Some st,
      upd_case_type = None, upd_priority = None\<rparr>"

definition example_create :: CreateCaseData where
  "example_create =
     \<lparr>cd_client_id = 10, cd_lawyer_id = None, cd_title = ''Will'', cd_description = None,
      cd_case_type = None, cd_priority = None\<rparr>"

definition example_file :: UploadedFile where
  "example_file = \<lparr>f_originalname = ''lease.pdf'', f_mimetype = ''application/pdf'', f_size = 10\<rparr>"

text \<open>
  A second definition of the intake case number, following the claim's words: one plus
  the highest sequence among the cases of the year and type prefix, one when there is
  none.
\<close>

definition existing_sequences :: "nat \<Rightarrow> CaseType \<Rightarrow> case_row list \<Rightarrow> int list" where
  "existing_sequences year caseType table =
     (let start = string_of_nat year @ ''-'' @ getCaseTypePrefix caseType @ ''-''
      in concat (map (\<lambda>c. case js_parseInt (drop (length start) (c_case_number c)) of
                            None \<Rightarrow> [] | Some n \<Rightarrow> [n])
                   (filter (\<lambda>c. prefix start (c_case_number c)) table)))"

definition case_number_by_highest_sequence :: "nat \<Rightarrow> CaseType \<Rightarrow> case_row list \<Rightarrow> string" where
  "case_number_by_highest_sequence year caseType table =
     string_of_nat year @ ''-'' @ getCaseTypePrefix caseType @ ''-''
       @ padStart 4 (CHR ''0'')
           (js_number_toString (Some (1 + foldr max (existing_sequences year caseType table) 0)))"

text \<open>
  Two personal-injury cases of 2025 whose newer one carries the higher sequence, and two
  whose newer one carries the lower sequence.
\<close>

definition ordered_cases :: "case_row list" where
  "ordered_cases =
     [example_case\<lparr>c_id := 200, c_case_number := ''2025-PI-0002'', c_created_at := 1\<rparr>,
      example_case\<lparr>c_id := 201, c_case_number := ''2025-PI-0005'', c_created_at := 2\<rparr>]"

definition out_of_order_cases :: "case_row list" where
  "out_of_order_cases =
     [example_case\<lparr>c_id := 200, c_case_number := ''2025-PI-0005'', c_created_at := 1\<rparr>,
      example_case\<lparr>c_id := 201, c_case_number := ''2025-PI-0004'', c_created_at := 2\<rparr>]"


text \<open>The example database with two notifications.\<close>

definition example_notifications :: "notification_row list" where
  "example_notifications =
     [\<lparr>n_id = 900, n_user_id = 1, n_type = MESSAGE_RECEIVED, n_title = ''New Message'',
       n_message = ''Lea Park sent a message on case CASE-2025-00001.'', n_case_id = Some 100,
       n_is_read = False, n_created_at = 5000, n_read_at = None\<rparr>,
      \<lparr>n_id = 901, n_user_id = 2, n_type = NEW_CASE, n_title = ''New Case Assigned'',
       n_message = ''You have been assigned a new case.'', n_case_id = Some 100,
       n_is_read = False, n_created_at = 5001, n_read_at = None\<rparr>]"

definition example_db_with_notifications :: database where
  "example_db_with_notifications = example_db\<lparr>notifications := example_notifications\<rparr>"

text \<open>
  What the log of the weekly digest says of one lawyer: faulty when the summary query
  fails, or the email throws for a lawyer who has cases; skipped without cases.
\<close>

definition lawyer_faulty :: "(uuid \<Rightarrow> lawyer_env) \<Rightarrow> database \<Rightarrow> lawyer_row \<times> user_row \<Rightarrow> bool" where
  "lawyer_faulty env db l \<longleftrightarrow>
     summary_fails (env (l_id (fst l)))
     \<or> (lawyer_totalCases (l_id (fst l)) db \<noteq> 0 \<and> send_throws (env (l_id (fst l))))"

definition lawyer_skipped :: "(uuid \<Rightarrow> lawyer_env) \<Rightarrow> database \<Rightarrow> lawyer_row \<times> user_row \<Rightarrow> bool" where
  "lawyer_skipped env db l \<longleftrightarrow>
     \<not> summary_fails (env (l_id (fst l))) \<and> lawyer_totalCases (l_id (fst l)) db = 0"

definition lawyer_log_entry :: "(uuid \<Rightarrow> lawyer_env) \<Rightarrow> database \<Rightarrow> lawyer_row \<times> user_row \<Rightarrow> job_log" where
  "lawyer_log_entry env db l =
     (if lawyer_faulty env db l then ItemFailed (l_id (fst l))
      else if lawyer_skipped env db l then ItemSkipped (l_id (fst l))
      else ItemDone (l_id (fst l)))"

text \<open>The in-app notification that \<^verbatim>\<open>sendInactivityNotification\<close> creates for a case.\<close>

definition inactivity_notification :: "(uuid \<Rightarrow> item_env) \<Rightarrow> InactiveCase \<Rightarrow> notification_row" where
  "inactivity_notification env c =
     \<lparr>n_id = notification_id (env (ic_id c)), n_user_id = ic_client_user_id c, n_type = SYSTEM_ALERT,
      n_title = ''Case Update Needed'',
      n_message = ''Your case '' @ ic_case_number c @ '' has had no activity for ''
                    @ js_number_toString
                        (Some ((ie_t_notification (env (ic_id c)) - ic_last_activity_at c) div DAY_MS))
                    @ '' days. Please log in to review or contact your attorney.'',
      n_case_id = Some (ic_id c), n_is_read = False,
      n_created_at = ie_t_notification (env (ic_id c)), n_read_at = None\<rparr>"

text \<open>
  The \<^verbatim>\<open>PRIMARY KEY\<close> and \<^verbatim>\<open>NOT NULL REFERENCES\<close> constraints of the schema on the
  tables that the inactivity scan joins, and: every row of the case carries the given
  time of its last inactivity notification.
\<close>

definition schema_keys :: "database \<Rightarrow> bool" where
  "schema_keys db \<longleftrightarrow>
     distinct (map c_id (cases db)) \<and> distinct (map cl_id (clients db)) \<and>
     distinct (map u_id (users db)) \<and> distinct (map l_id (lawyers db)) \<and>
     (\<forall>c \<in> set (cases db). c_client_id c \<in> cl_id ` set (clients db)) \<and>
     (\<forall>cl \<in> set (clients db). cl_user_id cl \<in> u_id ` set (users db))"

definition stamped :: "timestamp \<Rightarrow> uuid \<Rightarrow> database \<Rightarrow> bool" where
  "stamped t caseId db \<longleftrightarrow>
     (\<forall>c \<in> set (cases db). c_id c = caseId \<longrightarrow> c_last_inactivity_notification c = Some t)"

text \<open>
  Two inactive cases of Ana's, a run of the inactivity check in which the notification
  of the first case fails; two lawyers with one case each, a run of the weekly digest in which the email to
  the first lawyer throws.
\<close>

definition example_inactive_db :: database where
  "example_inactive_db =
     example_db\<lparr>cases := [example_case,
                          example_case\<lparr>c_id := 101, c_case_number := ''CASE-2025-00002'',
                                         c_title := ''Will'', c_last_activity_at := 2000\<rparr>]\<rparr>"

definition example_item_env :: "uuid \<Rightarrow> item_env" where
  "example_item_env i =
     \<lparr>notification_fails = (i = 100), stamp_fails = False,
      ie_t_notification = 2000000001, ie_t_stamp = 2000000002, ie_t_event = 2000000003,
      notification_id = 900 + i, email_delivered = True\<rparr>"

definition example_lawyers_db :: database where
  "example_lawyers_db =
     example_db\<lparr>users := users example_db @
                   [\<lparr>u_id = 4, u_email = ''max@example.com'', u_role = LAWYER,
                     u_first_name = ''Max'', u_last_name = ''Adams'', u_is_active = True\<rparr>],
                 lawyers := lawyers example_db @ [\<lparr>l_id = 21, l_user_id = 4, l_is_available = True\<rparr>],
                 cases := [example_case\<lparr>c_lawyer_id := Some 20\<rparr>,
                           example_case\<lparr>c_id := 101, c_case_number := ''CASE-2025-00002'',
                                          c_lawyer_id := Some 21\<rparr>]\<rparr>"

definition example_lawyer_env :: "uuid \<Rightarrow> lawyer_env" where
  "example_lawyer_env i =
     \<lparr>summary_fails = False, send_throws = (i = 21), summary_delivered = True\<rparr>"


text \<open>
  The foreign keys of the schema on the lawyer of a case and on the user of a lawyer, and
  a database with a second client, Bob (user 5, client 11), whose case 101 is assigned to
  Lea.
\<close>

definition schema_lawyer_keys :: "database \<Rightarrow> bool" where
  "schema_lawyer_keys db \<longleftrightarrow>
     (\<forall>c \<in> set (cases db). \<forall>l. c_lawyer_id c = Some l \<longrightarrow> l \<in> l_id ` set (lawyers db)) \<and>
     (\<forall>l \<in> set (lawyers db). l_user_id l \<in> u_id ` set (users db))"

definition example_two_clients_db :: database where
  "example_two_clients_db =
     example_db\<lparr>users := users example_db @
                   [\<lparr>u_id = 5, u_email = ''bob@example.com'', u_role = CLIENT,
                     u_first_name = ''Bob'', u_last_name = ''Cole'', u_is_active = True\<rparr>],
                 clients := clients example_db @ [\<lparr>cl_id = 11, cl_user_id = 5\<rparr>],
                 cases := [example_case,
                           example_case\<lparr>c_id := 101, c_case_number := ''CASE-2025-00002'',
                                          c_client_id := 11, c_lawyer_id := Some 20\<rparr>]\<rparr>"


























section \<open>Properties of the retry loop\<close>

lemma sendEmail_loop_attempts_le:
  "attempts (sendEmail_loop transport rnd a) \<le> maxRetries RETRY_CONFIG + 1 - a"
proof (induction n \<equiv> "maxRetries RETRY_CONFIG + 1 - a" arbitrary: a)
  case 0
  then show ?case by (simp add: sendEmail_loop.simps[of transport rnd a])
next
  case (Suc n)
  from Suc.hyps(2) have "n = maxRetries RETRY_CONFIG + 1 - (a + 1)" by simp
  then have "attempts (sendEmail_loop transport rnd (a + 1)) \<le> maxRetries RETRY_CONFIG + 1 - (a + 1)"
    by (rule Suc.hyps(1))
  with Suc.hyps(2) show ?case
    by (auto simp add: sendEmail_loop.simps[of transport rnd a] Let_def split: send_outcome.splits)
qed

lemma sendEmail_loop_attempts_delays:
  "a \<le> maxRetries RETRY_CONFIG \<Longrightarrow>
   attempts (sendEmail_loop transport rnd a) = length (delays (sendEmail_loop transport rnd a)) + 1"
proof (induction n \<equiv> "maxRetries RETRY_CONFIG - a" arbitrary: a)
  case 0
  then show ?case
    by (simp add: sendEmail_loop.simps[of transport rnd a] Let_def split: send_outcome.splits)
next
  case (Suc n)
  from Suc.hyps(2) have "n = maxRetries RETRY_CONFIG - (a + 1)" "a + 1 \<le> maxRetries RETRY_CONFIG"
    by simp_all
  then have "attempts (sendEmail_loop transport rnd (a + 1))
               = length (delays (sendEmail_loop transport rnd (a + 1))) + 1"
    by (rule Suc.hyps(1))
  with Suc.hyps(2) show ?case
    by (auto simp add: sendEmail_loop.simps[of transport rnd a] Let_def split: send_outcome.splits)
qed

lemma sendEmail_loop_attempts_pos:
  "a \<le> maxRetries RETRY_CONFIG \<Longrightarrow> 1 \<le> attempts (sendEmail_loop transport rnd a)"
  using sendEmail_loop_attempts_delays[of a transport rnd] by simp

lemma sendEmail_loop_delays_nth:
  "k < length (delays (sendEmail_loop transport rnd a)) \<Longrightarrow>
   delays (sendEmail_loop transport rnd a) ! k = getRetryDelay (a + k) (rnd (a + k))"
proof (induction n \<equiv> "maxRetries RETRY_CONFIG + 1 - a" arbitrary: a k)
  case 0
  then show ?case by (simp add: sendEmail_loop.simps[of transport rnd a])
next
  case (Suc n)
  from Suc.hyps(2) have n: "n = maxRetries RETRY_CONFIG + 1 - (a + 1)" by simp
  have IH: "\<And>j. j < length (delays (sendEmail_loop transport rnd (Suc a))) \<Longrightarrow>
     delays (sendEmail_loop transport rnd (Suc a)) ! j = getRetryDelay (Suc (a + j)) (rnd (Suc (a + j)))"
    using Suc.hyps(1)[OF n] by simp
  from Suc.prems show ?case
    by (cases k)
       (auto simp add: sendEmail_loop.simps[of transport rnd a] Let_def IH
             split: send_outcome.splits if_splits)
qed

lemma getRetryDelay_bounds:
  assumes r: "0 \<le> r" "r < 1" and k: "k < maxRetries RETRY_CONFIG"
  shows "baseDelayMs RETRY_CONFIG * 2 ^ k \<le> getRetryDelay k r"
    and "getRetryDelay k r \<le> maxDelayMs RETRY_CONFIG + 1000"
proof -
  from k have "k = 0 \<or> k = 1 \<or> k = 2" by (auto simp: RETRY_CONFIG_def)
  with r show "baseDelayMs RETRY_CONFIG * 2 ^ k \<le> getRetryDelay k r"
    and "getRetryDelay k r \<le> maxDelayMs RETRY_CONFIG + 1000"
    by (auto simp add: getRetryDelay_def RETRY_CONFIG_def Let_def min_def)
qed

lemma sendEmail_loop_retry_iff:
  "a \<le> maxRetries RETRY_CONFIG \<Longrightarrow> k < attempts (sendEmail_loop transport rnd a) \<Longrightarrow>
   (k + 1 < attempts (sendEmail_loop transport rnd a) \<longleftrightarrow>
      (case transport (a + k) of
         Delivered \<Rightarrow> False
       | ReturnedError e \<Rightarrow> isRetryableError e
       | Thrown err \<Rightarrow> True) \<and> a + k < maxRetries RETRY_CONFIG)"
proof (induction n \<equiv> "maxRetries RETRY_CONFIG - a" arbitrary: a k)
  case 0
  then show ?case
    by (auto simp add: sendEmail_loop.simps[of transport rnd a] Let_def split: send_outcome.splits)
next
  case (Suc n)
  from Suc.hyps(2) have n: "n = maxRetries RETRY_CONFIG - Suc a" and le: "Suc a \<le> maxRetries RETRY_CONFIG"
    by simp_all
  have pos: "1 \<le> attempts (sendEmail_loop transport rnd (Suc a))"
    using sendEmail_loop_attempts_pos[OF le] .
  have IH: "\<And>j. j < attempts (sendEmail_loop transport rnd (Suc a)) \<Longrightarrow>
     (j + 1 < attempts (sendEmail_loop transport rnd (Suc a)) \<longleftrightarrow>
      (case transport (Suc a + j) of
         Delivered \<Rightarrow> False
       | ReturnedError e \<Rightarrow> isRetryableError e
       | Thrown err \<Rightarrow> True) \<and> Suc a + j < maxRetries RETRY_CONFIG)"
    using Suc.hyps(1)[OF n le] by simp
  show ?case
  proof (cases k)
    case 0
    with Suc.prems le pos show ?thesis
      by (auto simp add: sendEmail_loop.simps[of transport rnd a] Let_def split: send_outcome.splits)
  next
    case (Suc j)
    with Suc.prems le pos IH[of j] show ?thesis
      by (auto simp add: sendEmail_loop.simps[of transport rnd a] Let_def
               split: send_outcome.splits if_splits)
  qed
qed

lemma sendEmail_loop_result_iff:
  "a \<le> maxRetries RETRY_CONFIG \<Longrightarrow>
   (result (sendEmail_loop transport rnd a) \<longleftrightarrow>
      transport (a + attempts (sendEmail_loop transport rnd a) - 1) = Delivered)"
proof (induction n \<equiv> "maxRetries RETRY_CONFIG - a" arbitrary: a)
  case 0
  then show ?case
    by (auto simp add: sendEmail_loop.simps[of transport rnd a] Let_def split: send_outcome.splits)
next
  case (Suc n)
  from Suc.hyps(2) have n: "n = maxRetries RETRY_CONFIG - Suc a" and le: "Suc a \<le> maxRetries RETRY_CONFIG"
    by simp_all
  have pos: "1 \<le> attempts (sendEmail_loop transport rnd (Suc a))"
    using sendEmail_loop_attempts_pos[OF le] .
  have IH: "result (sendEmail_loop transport rnd (Suc a)) \<longleftrightarrow>
      transport (Suc a + attempts (sendEmail_loop transport rnd (Suc a)) - 1) = Delivered"
    using Suc.hyps(1)[OF n le] by simp
  with pos le show ?case
    by (auto simp add: sendEmail_loop.simps[of transport rnd a] Let_def split: send_outcome.splits)
qed

text \<open>
  Claim C2. One \<^verbatim>\<open>sendEmail\<close> call makes at most \<open>maxRetries + 1 = 4\<close> transport
  calls, with the defaults \<open>baseDelayMs = 1000\<close>, \<open>maxDelayMs = 10000\<close> and
  \<open>maxRetries = 3\<close>. It waits at most \<open>maxRetries\<close> times, and the \<open>k\<close>-th wait
  (\<open>k\<close> from 0) lasts \<open>min maxDelayMs (baseDelayMs * 2 ^ k + jitter)\<close> where the jitter
  is the random number times 1000, hence in \<open>[0, 1000)\<close>; so the wait lies between
  \<open>baseDelayMs * 2 ^ k\<close> and \<open>maxDelayMs + 1000\<close>.
\<close>

theorem sendEmail_attempts_and_delays:
  assumes rnd: "\<forall>k. 0 \<le> rnd k \<and> rnd k < 1"
  shows "attempts (sendEmail apiKey transport rnd) \<le> maxRetries RETRY_CONFIG + 1
       \<and> maxRetries RETRY_CONFIG + 1 = 4
       \<and> baseDelayMs RETRY_CONFIG = 1000 \<and> maxDelayMs RETRY_CONFIG = 10000
       \<and> length (delays (sendEmail apiKey transport rnd)) \<le> maxRetries RETRY_CONFIG
       \<and> (\<forall>k < length (delays (sendEmail apiKey transport rnd)).
            0 \<le> rnd k * 1000 \<and> rnd k * 1000 < 1000
          \<and> delays (sendEmail apiKey transport rnd) ! k
               = min (maxDelayMs RETRY_CONFIG) (baseDelayMs RETRY_CONFIG * 2 ^ k + rnd k * 1000)
          \<and> baseDelayMs RETRY_CONFIG * 2 ^ k \<le> delays (sendEmail apiKey transport rnd) ! k
          \<and> delays (sendEmail apiKey transport rnd) ! k \<le> maxDelayMs RETRY_CONFIG + 1000)"
proof (cases "apiKey = []")
  case True
  then show ?thesis by (simp add: sendEmail_def RETRY_CONFIG_def)
next
  case False
  let ?r = "sendEmail_loop transport rnd 0"
  have eq: "sendEmail apiKey transport rnd = ?r" using False by (simp add: sendEmail_def)
  have att: "attempts ?r \<le> maxRetries RETRY_CONFIG + 1"
    using sendEmail_loop_attempts_le[of transport rnd 0] by simp
  have len: "length (delays ?r) \<le> maxRetries RETRY_CONFIG"
    using att sendEmail_loop_attempts_delays[of 0 transport rnd] by simp
  have each: "0 \<le> rnd k * 1000 \<and> rnd k * 1000 < 1000
          \<and> delays ?r ! k = min (maxDelayMs RETRY_CONFIG) (baseDelayMs RETRY_CONFIG * 2 ^ k + rnd k * 1000)
          \<and> baseDelayMs RETRY_CONFIG * 2 ^ k \<le> delays ?r ! k
          \<and> delays ?r ! k \<le> maxDelayMs RETRY_CONFIG + 1000"
    if k: "k < length (delays ?r)" for k
  proof -
    from rnd have r: "0 \<le> rnd k" "rnd k < 1" by auto
    from k len have km: "k < maxRetries RETRY_CONFIG" by simp
    have d: "delays ?r ! k = getRetryDelay k (rnd k)"
      using sendEmail_loop_delays_nth[OF k] by simp
    from r d getRetryDelay_bounds[OF r km] show ?thesis
      by (simp add: getRetryDelay_def Let_def min.commute)
  qed
  have defaults: "maxRetries RETRY_CONFIG + 1 = 4" "baseDelayMs RETRY_CONFIG = 1000"
    "maxDelayMs RETRY_CONFIG = 10000"
    by (simp_all add: RETRY_CONFIG_def)
  from att len each defaults show ?thesis
    unfolding eq by blast
qed

theorem sendEmail_attempts_and_delays_witness:
  "(\<forall>k::nat. (0::real) \<le> 1 / 2 \<and> (1::real) / 2 < 1)
   \<and> attempts (sendEmail ''re_key''
        (\<lambda>k. if k < 3 then ReturnedError \<lparr>statusCode = Some 500, code = None\<rparr> else Delivered)
        (\<lambda>k. 1 / 2)) = 4
   \<and> delays (sendEmail ''re_key''
        (\<lambda>k. if k < 3 then ReturnedError \<lparr>statusCode = Some 500, code = None\<rparr> else Delivered)
        (\<lambda>k. 1 / 2)) = [1500, 2500, 4500]"
proof -
  have h: "\<forall>k::nat. (0::real) \<le> (\<lambda>k. 1 / 2) k \<and> (\<lambda>k. 1 / 2) k < (1::real)" by simp
  have "attempts (sendEmail ''re_key''
        (\<lambda>k. if k < 3 then ReturnedError \<lparr>statusCode = Some 500, code = None\<rparr> else Delivered)
        (\<lambda>k. 1 / 2)) \<le> maxRetries RETRY_CONFIG + 1"
    using sendEmail_attempts_and_delays[OF h] by blast
  moreover have "sendEmail ''re_key''
        (\<lambda>k. if k < 3 then ReturnedError \<lparr>statusCode = Some 500, code = None\<rparr> else Delivered)
        (\<lambda>k. 1 / 2)
      = \<lparr>result = True, attempts = 4, delays = [1500, 2500, 4500],
         logs = [LogWarn, LogWarn, LogWarn, LogInfo]\<rparr>"
    by (simp add: sendEmail_def sendEmail_loop.simps RETRY_CONFIG_def isRetryableError_def
                  getRetryDelay_def Let_def)
  ultimately show ?thesis by simp
qed


text \<open>
  Claim C3, as the code has it. An error object is retryable exactly when its status
  is 429 or at least 500 or, without a status, when its code is a connection reset, a
  timeout or a failed DNS lookup; every other status, the other 4xx among them, is not.
  With an API key, a further transport call follows call \<open>k\<close> exactly when attempts
  remain and call \<open>k\<close> either returned a retryable error or threw: an exception is
  never classified. A returned error that is not retryable ends the call at once with
  \<open>False\<close>. Without an API key no transport call is made and the result is \<open>False\<close>.
\<close>

theorem sendEmail_retry_classification:
  "(\<forall>sc. statusCode e = Some sc \<and> sc \<noteq> 0 \<longrightarrow> (isRetryableError e \<longleftrightarrow> sc = 429 \<or> 500 \<le> sc))
   \<and> (statusCode e = None \<or> statusCode e = Some 0 \<longrightarrow>
        (isRetryableError e \<longleftrightarrow>
           code e = Some ''ECONNRESET'' \<or> code e = Some ''ETIMEDOUT'' \<or> code e = Some ''ENOTFOUND''))
   \<and> (apiKey \<noteq> [] \<longrightarrow>
        (\<forall>k < attempts (sendEmail apiKey transport rnd).
           (k + 1 < attempts (sendEmail apiKey transport rnd) \<longleftrightarrow>
              (case transport k of
                 Delivered \<Rightarrow> False
               | ReturnedError err \<Rightarrow> isRetryableError err
               | Thrown err \<Rightarrow> True) \<and> k < maxRetries RETRY_CONFIG)))
   \<and> (apiKey \<noteq> [] \<longrightarrow>
        (\<forall>k < attempts (sendEmail apiKey transport rnd). \<forall>err.
           transport k = ReturnedError err \<and> \<not> isRetryableError err \<longrightarrow>
             attempts (sendEmail apiKey transport rnd) = k + 1
             \<and> \<not> result (sendEmail apiKey transport rnd)))
   \<and> (apiKey = [] \<longrightarrow>
        attempts (sendEmail apiKey transport rnd) = 0 \<and> \<not> result (sendEmail apiKey transport rnd))"
proof -
  have classify_status:
    "\<forall>sc. statusCode e = Some sc \<and> sc \<noteq> 0 \<longrightarrow> (isRetryableError e \<longleftrightarrow> sc = 429 \<or> 500 \<le> sc)"
    by (simp add: isRetryableError_def)
  have classify_code:
    "statusCode e = None \<or> statusCode e = Some 0 \<longrightarrow>
        (isRetryableError e \<longleftrightarrow>
           code e = Some ''ECONNRESET'' \<or> code e = Some ''ETIMEDOUT'' \<or> code e = Some ''ENOTFOUND'')"
    by (auto simp add: isRetryableError_def)
  have no_key:
    "apiKey = [] \<longrightarrow>
        attempts (sendEmail apiKey transport rnd) = 0 \<and> \<not> result (sendEmail apiKey transport rnd)"
    by (simp add: sendEmail_def)
  have retry: "k + 1 < attempts (sendEmail apiKey transport rnd) \<longleftrightarrow>
              (case transport k of
                 Delivered \<Rightarrow> False
               | ReturnedError err \<Rightarrow> isRetryableError err
               | Thrown err \<Rightarrow> True) \<and> k < maxRetries RETRY_CONFIG"
    if "apiKey \<noteq> []" "k < attempts (sendEmail apiKey transport rnd)" for k
    using that sendEmail_loop_retry_iff[of 0 k transport rnd] by (simp add: sendEmail_def)
  have stop: "attempts (sendEmail apiKey transport rnd) = k + 1
             \<and> \<not> result (sendEmail apiKey transport rnd)"
    if key: "apiKey \<noteq> []" and k: "k < attempts (sendEmail apiKey transport rnd)"
      and err: "transport k = ReturnedError err" "\<not> isRetryableError err" for k err
  proof -
    from retry[OF key k] err have "\<not> k + 1 < attempts (sendEmail apiKey transport rnd)" by simp
    with k have a: "attempts (sendEmail apiKey transport rnd) = k + 1" by simp
    from key have "result (sendEmail apiKey transport rnd) \<longleftrightarrow>
        transport (attempts (sendEmail apiKey transport rnd) - 1) = Delivered"
      using sendEmail_loop_result_iff[of 0 transport rnd] by (simp add: sendEmail_def)
    with a err show ?thesis by simp
  qed
  from classify_status classify_code no_key retry stop show ?thesis by blast
qed

theorem sendEmail_retry_classification_witness:
  "attempts (sendEmail ''re_key''
      (\<lambda>k. if k = 0 then ReturnedError \<lparr>statusCode = Some 503, code = None\<rparr>
           else ReturnedError \<lparr>statusCode = Some 404, code = None\<rparr>) (\<lambda>k. 0)) = 2
   \<and> \<not> result (sendEmail ''re_key''
      (\<lambda>k. if k = 0 then ReturnedError \<lparr>statusCode = Some 503, code = None\<rparr>
           else ReturnedError \<lparr>statusCode = Some 404, code = None\<rparr>) (\<lambda>k. 0))
   \<and> \<not> isRetryableError \<lparr>statusCode = Some 404, code = None\<rparr>"
proof -
  let ?t = "\<lambda>k::nat. if k = 0 then ReturnedError \<lparr>statusCode = Some 503, code = None\<rparr>
           else ReturnedError \<lparr>statusCode = Some 404, code = None\<rparr>"
  let ?e = "\<lparr>statusCode = Some 404, code = None\<rparr>"
  have not_retryable: "\<not> isRetryableError ?e"
    using sendEmail_retry_classification[of ?e "''re_key''" ?t "\<lambda>k. 0"] by simp
  have second: "1 < attempts (sendEmail ''re_key'' ?t (\<lambda>k. 0))"
    by (simp add: sendEmail_def sendEmail_loop.simps RETRY_CONFIG_def isRetryableError_def Let_def)
  have "?t 1 = ReturnedError ?e" by simp
  with second not_retryable
  have "attempts (sendEmail ''re_key'' ?t (\<lambda>k. 0)) = 1 + 1
        \<and> \<not> result (sendEmail ''re_key'' ?t (\<lambda>k. 0))"
    using sendEmail_retry_classification[of ?e "''re_key''" ?t "\<lambda>k. 0"] by blast
  with not_retryable show ?thesis by simp
qed

text \<open>
  The claim as written fails for an exception: a thrown error with status 400 is not
  retryable, yet the next transport call is made.
\<close>

theorem sendEmail_thrown_4xx_is_retried:
  "\<not> isRetryableError \<lparr>statusCode = Some 400, code = None\<rparr>
   \<and> attempts (sendEmail ''re_key''
        (\<lambda>k. if k = 0 then Thrown \<lparr>statusCode = Some 400, code = None\<rparr> else Delivered)
        (\<lambda>k. 0)) = 2
   \<and> result (sendEmail ''re_key''
        (\<lambda>k. if k = 0 then Thrown \<lparr>statusCode = Some 400, code = None\<rparr> else Delivered)
        (\<lambda>k. 0))"
  by (simp add: sendEmail_def sendEmail_loop.simps RETRY_CONFIG_def isRetryableError_def
                getRetryDelay_def Let_def)

section \<open>Properties of the case mutations\<close>

text \<open>
  Claim C1. \<^verbatim>\<open>sendEmail\<close> resolves to a boolean whatever the transport does (each
  exception of the transport is an outcome \<open>Thrown\<close>, and no branch of the model
  rejects); when no transport call within the retry budget delivers, the boolean is
  \<open>False\<close>. The value that \<^verbatim>\<open>createCase\<close>, \<^verbatim>\<open>updateCase\<close> and
  \<^verbatim>\<open>assignLawyer\<close> resolve to (or the error they reject with) and the database they
  leave are the same whether the detached notification pipeline fulfils or rejects.
\<close>

theorem delivery_failure_is_isolated:
  "((\<forall>k \<le> maxRetries RETRY_CONFIG. transport k \<noteq> Delivered) \<longrightarrow>
       \<not> result (sendEmail apiKey transport rnd))
   \<and> fst (caseService_createCase now year new_id createData actorId settled db)
       = fst (caseService_createCase now year new_id createData actorId None db)
   \<and> fst (snd (caseService_createCase now year new_id createData actorId settled db))
       = fst (snd (caseService_createCase now year new_id createData actorId None db))
   \<and> fst (caseService_updateCase t_update t_event caseId updateData userId userRole settled db)
       = fst (caseService_updateCase t_update t_event caseId updateData userId userRole None db)
   \<and> fst (snd (caseService_updateCase t_update t_event caseId updateData userId userRole settled db))
       = fst (snd (caseService_updateCase t_update t_event caseId updateData userId userRole None db))
   \<and> fst (caseService_assignLawyer t_update t_event caseId lawyerId assignedBy settled db)
       = fst (caseService_assignLawyer t_update t_event caseId lawyerId assignedBy None db)
   \<and> fst (snd (caseService_assignLawyer t_update t_event caseId lawyerId assignedBy settled db))
       = fst (snd (caseService_assignLawyer t_update t_event caseId lawyerId assignedBy None db))"
proof -
  have exhausted: "\<not> result (sendEmail apiKey transport rnd)"
    if none: "\<forall>k \<le> maxRetries RETRY_CONFIG. transport k \<noteq> Delivered"
  proof (cases "apiKey = []")
    case True
    then show ?thesis by (simp add: sendEmail_def)
  next
    case False
    have "attempts (sendEmail_loop transport rnd 0) - 1 \<le> maxRetries RETRY_CONFIG"
      using sendEmail_loop_attempts_le[of transport rnd 0] by simp
    with none have "transport (attempts (sendEmail_loop transport rnd 0) - 1) \<noteq> Delivered"
      by blast
    with False show ?thesis
      using sendEmail_loop_result_iff[of 0 transport rnd] by (simp add: sendEmail_def)
  qed
  have create: "fst (caseService_createCase now year new_id createData actorId settled db)
       = fst (caseService_createCase now year new_id createData actorId None db)
     \<and> fst (snd (caseService_createCase now year new_id createData actorId settled db))
       = fst (snd (caseService_createCase now year new_id createData actorId None db))"
    by (simp add: caseService_createCase_def split: option.splits prod.splits sum.splits)
  have update: "fst (caseService_updateCase t_update t_event caseId updateData userId userRole settled db)
       = fst (caseService_updateCase t_update t_event caseId updateData userId userRole None db)
     \<and> fst (snd (caseService_updateCase t_update t_event caseId updateData userId userRole settled db))
       = fst (snd (caseService_updateCase t_update t_event caseId updateData userId userRole None db))"
    by (simp add: caseService_updateCase_def Let_def split: option.splits prod.splits sum.splits)
  have assign: "fst (caseService_assignLawyer t_update t_event caseId lawyerId assignedBy settled db)
       = fst (caseService_assignLawyer t_update t_event caseId lawyerId assignedBy None db)
     \<and> fst (snd (caseService_assignLawyer t_update t_event caseId lawyerId assignedBy settled db))
       = fst (snd (caseService_assignLawyer t_update t_event caseId lawyerId assignedBy None db))"
    by (simp add: caseService_assignLawyer_def Let_def split: option.splits prod.splits sum.splits)
  from exhausted create update assign show ?thesis by blast
qed


lemmas eval_defs =
  succeeded_def state_after_def example_db_def example_case_def status_update_def
  example_create_def example_file_def
  caseService_updateCase_def caseService_createCase_def caseService_assignLawyer_def
  messageService_sendMessage_def documentService_uploadDocument_def
  caseRepository_findById_def clientRepository_findById_def lawyerRepository_findById_def
  clientRepository_findByUserId_def lawyerRepository_findByUserId_def
  caseRepository_update_def caseRepository_assignLawyer_def apply_update_def no_fields_def
  checkCaseAccess_def checkPartyAccess_def checkMessageAccess_def checkDocumentAccess_def
  caseEventRepository_create_def insert_case_event_def update_case_last_activity_def
  messageRepository_create_def createWithEvent_def generate_case_number_def
  queryOne_def Let_def string_of_nat.simps padStart_def lpad_def digit_char_def
  js_trim_def js_whitespace_def isAllowedMimeType_def getAllowedMimeTypes_def detached_catch_def
  case_event_appended_def last_activity_of_def

theorem delivery_failure_is_isolated_witness:
  "(\<forall>k::nat. Thrown \<lparr>statusCode = None, code = Some ''ECONNRESET''\<rparr> \<noteq> Delivered)
   \<and> \<not> result (sendEmail ''re_key'' (\<lambda>k. Thrown \<lparr>statusCode = None, code = Some ''ECONNRESET''\<rparr>) (\<lambda>k. 0))
   \<and> succeeded (caseService_createCase 2000 2025 101 example_create (Some 3)
                  (Some (DatabaseError ''connection lost'')) example_db)
   \<and> fst (caseService_createCase 2000 2025 101 example_create (Some 3)
            (Some (DatabaseError ''connection lost'')) example_db)
       = fst (caseService_createCase 2000 2025 101 example_create (Some 3) None example_db)
   \<and> succeeded (caseService_updateCase 2000 2001 100 (status_update IN_REVIEW) 3 ADMIN
                  (Some (DatabaseError ''connection lost'')) example_db)
   \<and> fst (caseService_updateCase 2000 2001 100 (status_update IN_REVIEW) 3 ADMIN
            (Some (DatabaseError ''connection lost'')) example_db)
       = fst (caseService_updateCase 2000 2001 100 (status_update IN_REVIEW) 3 ADMIN None example_db)
   \<and> succeeded (caseService_assignLawyer 2000 2001 100 20 3
                  (Some (DatabaseError ''connection lost'')) example_db)
   \<and> fst (caseService_assignLawyer 2000 2001 100 20 3
            (Some (DatabaseError ''connection lost'')) example_db)
       = fst (caseService_assignLawyer 2000 2001 100 20 3 None example_db)"
proof -
  let ?t = "\<lambda>k::nat. Thrown \<lparr>statusCode = None, code = Some ''ECONNRESET''\<rparr>"
  let ?err = "Some (DatabaseError ''connection lost'')"
  have all_fail: "\<forall>k \<le> maxRetries RETRY_CONFIG. ?t k \<noteq> Delivered" by simp
  note inst = delivery_failure_is_isolated[of ?t "''re_key''" "\<lambda>k. 0" 2000 2025 101
      example_create "Some 3" ?err example_db 2000 2001 100 "status_update IN_REVIEW" 3 ADMIN 20 3]
  from inst all_fail have no_mail: "\<not> result (sendEmail ''re_key'' ?t (\<lambda>k. 0))" by blast
  have s1: "succeeded (caseService_createCase 2000 2025 101 example_create (Some 3) ?err example_db)"
    by (simp add: eval_defs)
  have s2: "succeeded (caseService_updateCase 2000 2001 100 (status_update IN_REVIEW) 3 ADMIN ?err example_db)"
    by (simp add: eval_defs)
  have s3: "succeeded (caseService_assignLawyer 2000 2001 100 20 3 ?err example_db)"
    by (simp add: eval_defs)
  from inst no_mail s1 s2 s3 show ?thesis by simp
qed

section \<open>Properties of the event log\<close>




















section \<open>Properties of case numbers and case creation\<close>




lemma string_of_nat_nonempty: "string_of_nat n \<noteq> []"
  by (simp add: string_of_nat.simps[of n])










lemma replicate_numeral_unfold: "replicate (numeral k) x = x # replicate (pred_numeral k) x"
  by (simp add: numeral_eq_Suc)

lemmas eval6 = replicate_numeral_unfold intakeService_generateCaseNumber_def getCaseTypePrefix_def
  out_of_order_cases_def ordered_cases_def
  example_case_def Let_def string_of_nat.simps digit_char_def padStart_def js_number_toString_def
  nth_opt_def js_parseInt_def js_whitespace_def is_digit_def digits_value_def digit_value_def
  case_number_by_highest_sequence_def existing_sequences_def













text \<open>
  A defect of the intake flow, apart from the statement above: it reads the sequence of the
  most recently created case, so that when that case does not carry the highest sequence
  the number it computes can be taken, and the intake fails on the \<^verbatim>\<open>UNIQUE\<close>
  constraint.
\<close>

lemma intake_number_can_be_taken:
  "intakeService_generateCaseNumber 2025 PERSONAL_INJURY out_of_order_cases = ''2025-PI-0005''
   \<and> ''2025-PI-0005'' \<in> set (map c_case_number out_of_order_cases)
   \<and> case_number_by_highest_sequence 2025 PERSONAL_INJURY out_of_order_cases = ''2025-PI-0006''"
proof -
  have "intakeService_generateCaseNumber 2025 PERSONAL_INJURY out_of_order_cases = ''2025-PI-0005''"
    by (simp add: eval6)
  moreover have "''2025-PI-0005'' \<in> set (map c_case_number out_of_order_cases)"
    by (simp add: out_of_order_cases_def)
  moreover have "case_number_by_highest_sequence 2025 PERSONAL_INJURY out_of_order_cases = ''2025-PI-0006''"
    by (simp add: eval6)
  ultimately show ?thesis by simp
qed


section \<open>Properties of the notification store\<close>

lemma map_cond_id: "(\<And>x. x \<in> set xs \<Longrightarrow> \<not> P x) \<Longrightarrow> map (\<lambda>x. if P x then f x else x) xs = xs"
  by (induction xs) auto

lemma filter_others_map:
  assumes "\<And>x. P x \<Longrightarrow> \<not> Q x" and "\<And>x. Q (f x) = Q x"
  shows "filter Q (map (\<lambda>x. if P x then f x else x) xs) = filter Q xs"
  using assms by (induction xs) auto

lemma foreign_id_no_hit:
  assumes n: "n \<in> set rows" and ident: "n_id n = nid" and other: "n_user_id n \<noteq> u"
    and pk: "distinct (map n_id rows)"
  shows "\<forall>m \<in> set rows. \<not> (n_id m = nid \<and> n_user_id m = u)"
proof
  fix m assume m: "m \<in> set rows"
  show "\<not> (n_id m = nid \<and> n_user_id m = u)"
  proof
    assume h: "n_id m = nid \<and> n_user_id m = u"
    with ident have "n_id m = n_id n" by simp
    with pk n m have "m = n" by (meson distinct_map inj_onD)
    with h other show False by simp
  qed
qed

text \<open>
  Claim C10. \<^verbatim>\<open>markAsRead\<close>, \<^verbatim>\<open>markAllAsRead\<close> and \<^verbatim>\<open>delete\<close> called for a user
  leave the rows of every other user as they are, in their order. Called with the
  identifier of a notification that belongs to another user, \<^verbatim>\<open>markAsRead\<close> returns
  \<^verbatim>\<open>null\<close>, \<^verbatim>\<open>delete\<close> returns \<^verbatim>\<open>false\<close>, and the database is unchanged
  (identifiers are a primary key).
\<close>

theorem notifications_owner_scoped:
  "filter (\<lambda>n. n_user_id n \<noteq> userId) (notifications (snd (notificationService_markAsRead now notificationId userId db)))
     = filter (\<lambda>n. n_user_id n \<noteq> userId) (notifications db)
   \<and> filter (\<lambda>n. n_user_id n \<noteq> userId) (notifications (snd (notificationService_markAllAsRead now userId db)))
     = filter (\<lambda>n. n_user_id n \<noteq> userId) (notifications db)
   \<and> filter (\<lambda>n. n_user_id n \<noteq> userId) (notifications (snd (notificationService_delete notificationId userId db)))
     = filter (\<lambda>n. n_user_id n \<noteq> userId) (notifications db)
   \<and> (n \<in> set (notifications db) \<and> n_id n = notificationId \<and> n_user_id n \<noteq> userId
        \<and> distinct (map n_id (notifications db)) \<longrightarrow>
        notificationService_markAsRead now notificationId userId db = (None, db)
        \<and> notificationService_delete notificationId userId db = (False, db))"
proof (intro conjI impI)
  show "filter (\<lambda>n. n_user_id n \<noteq> userId) (notifications (snd (notificationService_markAsRead now notificationId userId db)))
     = filter (\<lambda>n. n_user_id n \<noteq> userId) (notifications db)"
    unfolding notificationService_markAsRead_def Let_def
    by (simp, rule filter_others_map) simp_all
next
  show "filter (\<lambda>n. n_user_id n \<noteq> userId) (notifications (snd (notificationService_markAllAsRead now userId db)))
     = filter (\<lambda>n. n_user_id n \<noteq> userId) (notifications db)"
    unfolding notificationService_markAllAsRead_def Let_def
    by (simp, rule filter_others_map) simp_all
next
  show "filter (\<lambda>n. n_user_id n \<noteq> userId) (notifications (snd (notificationService_delete notificationId userId db)))
     = filter (\<lambda>n. n_user_id n \<noteq> userId) (notifications db)"
    by (auto simp add: notificationService_delete_def Let_def intro: filter_cong)
next
  assume h: "n \<in> set (notifications db) \<and> n_id n = notificationId \<and> n_user_id n \<noteq> userId
        \<and> distinct (map n_id (notifications db))"
  then have nohit: "\<forall>m \<in> set (notifications db). \<not> (n_id m = notificationId \<and> n_user_id m = userId)"
    using foreign_id_no_hit[of n "notifications db" notificationId userId] by blast
  then have same: "map (\<lambda>m. if n_id m = notificationId \<and> n_user_id m = userId
                     then m\<lparr>n_is_read := True, n_read_at := Some now\<rparr> else m) (notifications db)
          = notifications db"
    by (intro map_cond_id) blast
  from nohit have empty: "filter (\<lambda>m. n_id m = notificationId \<and> n_user_id m = userId) (notifications db) = []"
    by (simp add: filter_empty_conv)
  show "notificationService_markAsRead now notificationId userId db = (None, db)"
    by (simp add: notificationService_markAsRead_def Let_def same empty queryOne_def)
  from nohit have keep: "filter (\<lambda>m. n_id m = notificationId \<longrightarrow> n_user_id m \<noteq> userId) (notifications db)
                          = notifications db"
    by (simp add: filter_id_conv)
  show "notificationService_delete notificationId userId db = (False, db)"
    by (simp add: notificationService_delete_def Let_def empty keep)
qed


theorem notifications_owner_scoped_witness:
  "notificationService_markAsRead 6000 901 1 example_db_with_notifications
     = (None, example_db_with_notifications)
   \<and> notificationService_delete 901 1 example_db_with_notifications
     = (False, example_db_with_notifications)
   \<and> filter (\<lambda>n. n_user_id n \<noteq> 1)
       (notifications (snd (notificationService_markAllAsRead 6000 1 example_db_with_notifications)))
     = filter (\<lambda>n. n_user_id n \<noteq> 1) (notifications example_db_with_notifications)
   \<and> map n_is_read
       (notifications (snd (notificationService_markAllAsRead 6000 1 example_db_with_notifications)))
     = [True, False]"
proof -
  let ?n = "\<lparr>n_id = 901, n_user_id = 2, n_type = NEW_CASE, n_title = ''New Case Assigned'',
       n_message = ''You have been assigned a new case.'', n_case_id = Some 100,
       n_is_read = False, n_created_at = 5001, n_read_at = None\<rparr>"
  have h: "?n \<in> set (notifications example_db_with_notifications)" "n_id ?n = 901" "n_user_id ?n \<noteq> 1"
    "distinct (map n_id (notifications example_db_with_notifications))"
    by (simp_all add: example_db_with_notifications_def example_notifications_def)
  have marked: "map n_is_read
       (notifications (snd (notificationService_markAllAsRead 6000 1 example_db_with_notifications)))
     = [True, False]"
    by (simp add: notificationService_markAllAsRead_def example_db_with_notifications_def
                  example_notifications_def Let_def)
  from notifications_owner_scoped
         [where n = ?n and db = example_db_with_notifications and notificationId = 901
            and userId = 1 and now = 6000] h marked
  show ?thesis by blast
qed

section \<open>Properties of the scheduled jobs\<close>

lemma process_case_log:
  "js_log (process_inactive_case env st c) = js_log st @ [ItemFailed (ic_id c)]"
  by (simp add: process_inactive_case_def Let_def item_failed_def item_done_def
                caseEventRepository_create_def split: prod.splits)

lemma process_case_fail:
  "failCount (process_inactive_case env st c) = failCount st + 1"
  by (simp add: process_inactive_case_def Let_def item_failed_def item_done_def
                caseEventRepository_create_def split: prod.splits)

lemma process_case_success:
  "successCount (process_inactive_case env st c) = successCount st"
  by (simp add: process_inactive_case_def Let_def item_failed_def item_done_def
                caseEventRepository_create_def split: prod.splits)

lemma process_case_notifications:
  "notifications (js_db (process_inactive_case env st c))
     = notifications (js_db st)
       @ (if notification_fails (env (ic_id c)) then [] else [inactivity_notification env c])"
  by (simp add: process_inactive_case_def Let_def item_failed_def item_done_def
                notificationService_create_def updateNotificationTimestamp_def
                caseEventRepository_create_def inactivity_notification_def
           split: prod.splits)

lemma process_case_emails:
  "js_emails (process_inactive_case env st c)
     = js_emails st
       @ (if notification_fails (env (ic_id c)) then []
          else [(ic_client_email c, email_delivered (env (ic_id c)))])"
  by (simp add: process_inactive_case_def Let_def item_failed_def item_done_def
                caseEventRepository_create_def split: prod.splits)

lemma foldl_case_log:
  "js_log (foldl (process_inactive_case env) st xs)
     = js_log st @ map (\<lambda>c. ItemFailed (ic_id c)) xs"
  by (induction xs arbitrary: st) (simp_all add: process_case_log)

lemma foldl_case_fail:
  "failCount (foldl (process_inactive_case env) st xs) = failCount st + length xs"
  by (induction xs arbitrary: st) (simp_all add: process_case_fail)

lemma foldl_case_success:
  "successCount (foldl (process_inactive_case env) st xs) = successCount st"
  by (induction xs arbitrary: st) (simp_all add: process_case_success)

lemma foldl_case_notifications:
  "notifications (js_db (foldl (process_inactive_case env) st xs))
     = notifications (js_db st)
       @ map (inactivity_notification env) (filter (\<lambda>c. \<not> notification_fails (env (ic_id c))) xs)"
  by (induction xs arbitrary: st) (simp_all add: process_case_notifications)

lemma foldl_case_emails:
  "js_emails (foldl (process_inactive_case env) st xs)
     = js_emails st
       @ map (\<lambda>c. (ic_client_email c, email_delivered (env (ic_id c))))
           (filter (\<lambda>c. \<not> notification_fails (env (ic_id c))) xs)"
  by (induction xs arbitrary: st) (simp_all add: process_case_emails)

lemma process_lawyer_log:
  "js_log (process_lawyer env db st l) = js_log st @ [lawyer_log_entry env db l]"
  by (simp add: process_lawyer_def Let_def item_failed_def item_done_def lawyer_log_entry_def
                lawyer_faulty_def lawyer_skipped_def)

lemma process_lawyer_fail:
  "failCount (process_lawyer env db st l) = failCount st + (if lawyer_faulty env db l then 1 else 0)"
  by (simp add: process_lawyer_def Let_def item_failed_def item_done_def lawyer_faulty_def)

lemma process_lawyer_success:
  "successCount (process_lawyer env db st l)
     = successCount st + (if lawyer_faulty env db l \<or> lawyer_skipped env db l then 0 else 1)"
  by (simp add: process_lawyer_def Let_def item_failed_def item_done_def lawyer_faulty_def
                lawyer_skipped_def)

lemma process_lawyer_emails:
  "js_emails (process_lawyer env db st l)
     = js_emails st
       @ (if lawyer_faulty env db l \<or> lawyer_skipped env db l then []
          else [(u_email (snd l), summary_delivered (env (l_id (fst l))))])"
  by (simp add: process_lawyer_def Let_def item_failed_def item_done_def lawyer_faulty_def
                lawyer_skipped_def)

lemma foldl_lawyer_log:
  "js_log (foldl (process_lawyer env db) st xs) = js_log st @ map (lawyer_log_entry env db) xs"
  by (induction xs arbitrary: st) (simp_all add: process_lawyer_log)

lemma foldl_lawyer_fail:
  "failCount (foldl (process_lawyer env db) st xs)
     = failCount st + length (filter (lawyer_faulty env db) xs)"
  by (induction xs arbitrary: st) (simp_all add: process_lawyer_fail)

lemma foldl_lawyer_success:
  "successCount (foldl (process_lawyer env db) st xs)
     = successCount st
       + length (filter (\<lambda>l. \<not> lawyer_faulty env db l \<and> \<not> lawyer_skipped env db l) xs)"
  by (induction xs arbitrary: st) (simp_all add: process_lawyer_success)

lemma foldl_lawyer_emails:
  "js_emails (foldl (process_lawyer env db) st xs)
     = js_emails st
       @ map (\<lambda>l. (u_email (snd l), summary_delivered (env (l_id (fst l)))))
           (filter (\<lambda>l. \<not> lawyer_faulty env db l \<and> \<not> lawyer_skipped env db l) xs)"
  by (induction xs arbitrary: st) (simp_all add: process_lawyer_emails)

lemma foldl_lawyer_db:
  "js_db (foldl (process_lawyer env db) st xs) = js_db st"
  by (induction xs arbitrary: st)
     (simp_all add: process_lawyer_def Let_def item_failed_def item_done_def)

lemma example_selection:
  "map ic_id (getInactiveCasesForNotification 2000000000 (inactivity_threshold None)
                example_inactive_db) = [100, 101]"
  by (simp add: getInactiveCasesForNotification_def inactivity_threshold_def example_inactive_db_def
                example_db_def example_case_def needs_inactivity_notification_def DAY_MS_def
                left_join_def)

lemma example_selection_emails:
  "map (\<lambda>c. (ic_id c, ic_client_email c))
     (getInactiveCasesForNotification 2000000000 (inactivity_threshold None) example_inactive_db)
   = [(100, ''ana@example.com''), (101, ''ana@example.com'')]"
  by (simp add: getInactiveCasesForNotification_def inactivity_threshold_def example_inactive_db_def
                example_db_def example_case_def needs_inactivity_notification_def DAY_MS_def
                left_join_def)

lemma example_lawyers:
  "map (\<lambda>l. (l_id (fst l), u_email (snd l))) (getActiveLawyers example_lawyers_db)
   = [(21, ''max@example.com''), (20, ''lea@example.com'')]"
  by (simp add: getActiveLawyers_def example_lawyers_db_def example_db_def example_case_def
                less_eq_prod_def less_prod_def)

lemma example_totals:
  "lawyer_totalCases 20 example_lawyers_db = 1" "lawyer_totalCases 21 example_lawyers_db = 1"
  by (simp_all add: lawyer_totalCases_def example_lawyers_db_def example_db_def example_case_def)

lemma map_eq_two:
  "map f xs = [p, q] \<Longrightarrow> \<exists>a b. xs = [a, b] \<and> f a = p \<and> f b = q"
  by (auto simp add: map_eq_Cons_conv)

text \<open>
  Claim C9. In both batch jobs a failure while one item is processed is caught at that
  item, counted, and the loop goes on: the log of a run holds, between the line of the
  items found and the line of completion, one line for every item in the order of the
  batch, whatever happened to the items before it, and the last line reports the two
  counters. In the inactivity check every case ends in the \<^verbatim>\<open>catch\<close> (the event insert
  fails), so the counter of failures is the number of cases and the counter of successes
  stays zero; all the same every case whose notification statement did not fail has its
  notification and its email, also after a failed case. In the weekly digest the counter
  of failures is the number of faulty lawyers, the counter of successes the number of
  lawyers whose summary was sent (skipped lawyers count in neither), and exactly those
  lawyers have their email, also after a failed lawyer; the database is not written.
\<close>

theorem batch_failures_are_isolated:
  "js_log (inactivityCheckJob_run now configured env db)
     = [JobStarted,
        ItemsFound (length (getInactiveCasesForNotification now (inactivity_threshold configured) db))]
       @ map (\<lambda>c. ItemFailed (ic_id c))
           (getInactiveCasesForNotification now (inactivity_threshold configured) db)
       @ [JobCompleted (successCount (inactivityCheckJob_run now configured env db))
                       (failCount (inactivityCheckJob_run now configured env db))]
   \<and> failCount (inactivityCheckJob_run now configured env db)
     = length (getInactiveCasesForNotification now (inactivity_threshold configured) db)
   \<and> successCount (inactivityCheckJob_run now configured env db) = 0
   \<and> notifications (js_db (inactivityCheckJob_run now configured env db))
     = notifications db
       @ map (inactivity_notification env)
           (filter (\<lambda>c. \<not> notification_fails (env (ic_id c)))
              (getInactiveCasesForNotification now (inactivity_threshold configured) db))
   \<and> js_emails (inactivityCheckJob_run now configured env db)
     = map (\<lambda>c. (ic_client_email c, email_delivered (env (ic_id c))))
         (filter (\<lambda>c. \<not> notification_fails (env (ic_id c)))
            (getInactiveCasesForNotification now (inactivity_threshold configured) db))
   \<and> js_log (weeklySummaryJob_run lenv db)
     = [JobStarted, ItemsFound (length (getActiveLawyers db))]
       @ map (lawyer_log_entry lenv db) (getActiveLawyers db)
       @ [JobCompleted (successCount (weeklySummaryJob_run lenv db))
                       (failCount (weeklySummaryJob_run lenv db))]
   \<and> failCount (weeklySummaryJob_run lenv db)
     = length (filter (lawyer_faulty lenv db) (getActiveLawyers db))
   \<and> successCount (weeklySummaryJob_run lenv db)
     = length (filter (\<lambda>l. \<not> lawyer_faulty lenv db l \<and> \<not> lawyer_skipped lenv db l)
                 (getActiveLawyers db))
   \<and> js_emails (weeklySummaryJob_run lenv db)
     = map (\<lambda>l. (u_email (snd l), summary_delivered (lenv (l_id (fst l)))))
         (filter (\<lambda>l. \<not> lawyer_faulty lenv db l \<and> \<not> lawyer_skipped lenv db l)
            (getActiveLawyers db))
   \<and> js_db (weeklySummaryJob_run lenv db) = db"
  by (simp add: inactivityCheckJob_run_def weeklySummaryJob_run_def Let_def
                foldl_case_log foldl_case_fail foldl_case_success foldl_case_notifications
                foldl_case_emails foldl_lawyer_log foldl_lawyer_fail foldl_lawyer_success
                foldl_lawyer_emails foldl_lawyer_db)

theorem batch_failures_are_isolated_witness:
  "js_log (inactivityCheckJob_run 2000000000 None example_item_env example_inactive_db)
     = [JobStarted, ItemsFound 2, ItemFailed 100, ItemFailed 101, JobCompleted 0 2]
   \<and> map n_case_id
       (notifications (js_db (inactivityCheckJob_run 2000000000 None example_item_env
                                example_inactive_db)))
     = [Some 101]
   \<and> js_emails (inactivityCheckJob_run 2000000000 None example_item_env example_inactive_db)
     = [(''ana@example.com'', True)]
   \<and> js_log (weeklySummaryJob_run example_lawyer_env example_lawyers_db)
     = [JobStarted, ItemsFound 2, ItemFailed 21, ItemDone 20, JobCompleted 1 1]
   \<and> js_emails (weeklySummaryJob_run example_lawyer_env example_lawyers_db)
     = [(''lea@example.com'', True)]"
proof -
  from map_eq_two[OF example_selection_emails] obtain a b where
    items: "getInactiveCasesForNotification 2000000000 (inactivity_threshold None)
              example_inactive_db = [a, b]"
      "ic_id a = 100" "ic_id b = 101" "ic_client_email b = ''ana@example.com''"
    by auto
  from map_eq_two[OF example_lawyers] obtain l m where
    found: "getActiveLawyers example_lawyers_db = [l, m]" "l_id (fst l) = 21" "l_id (fst m) = 20"
      "u_email (snd m) = ''lea@example.com''"
    by auto
  have n0: "notifications example_inactive_db = []"
    by (simp add: example_inactive_db_def example_db_def)
  from batch_failures_are_isolated
         [of 2000000000 None example_item_env example_inactive_db example_lawyer_env]
       items n0
  have cases_part:
    "js_log (inactivityCheckJob_run 2000000000 None example_item_env example_inactive_db)
       = [JobStarted, ItemsFound 2, ItemFailed 100, ItemFailed 101, JobCompleted 0 2]
     \<and> map n_case_id
         (notifications (js_db (inactivityCheckJob_run 2000000000 None example_item_env
                                  example_inactive_db)))
       = [Some 101]
     \<and> js_emails (inactivityCheckJob_run 2000000000 None example_item_env example_inactive_db)
       = [(''ana@example.com'', True)]"
    by (simp add: example_item_env_def inactivity_notification_def)
  from batch_failures_are_isolated
         [of 2000000000 None example_item_env example_lawyers_db example_lawyer_env]
       found example_totals
  have "js_log (weeklySummaryJob_run example_lawyer_env example_lawyers_db)
     = [JobStarted, ItemsFound 2, ItemFailed 21, ItemDone 20, JobCompleted 1 1]
     \<and> js_emails (weeklySummaryJob_run example_lawyer_env example_lawyers_db)
     = [(''lea@example.com'', True)]"
    by (simp add: lawyer_log_entry_def lawyer_faulty_def lawyer_skipped_def example_lawyer_env_def)
  with cases_part show ?thesis by simp
qed

lemma filter_key_unique:
  "distinct (map f xs) \<Longrightarrow> x \<in> set xs \<Longrightarrow> filter (\<lambda>y. f x = f y) xs = [x]"
proof (induction xs)
  case Nil
  then show ?case by simp
next
  case (Cons a xs)
  show ?case
  proof (cases "x = a")
    case True
    from Cons.prems(1) have "\<forall>y \<in> set xs. f a \<noteq> f y" by auto
    then have "filter (\<lambda>y. f a = f y) xs = []" by (simp add: filter_empty_conv)
    with True show ?thesis by simp
  next
    case False
    with Cons.prems have x: "x \<in> set xs" by simp
    from Cons.prems have d: "distinct (map f xs)" and "f a \<notin> f ` set xs" by simp_all
    with x have "f x \<noteq> f a" by (metis imageI)
    with Cons.IH[OF d x] show ?thesis by simp
  qed
qed

lemma filter_key_resolves:
  assumes "distinct (map f xs)" "k \<in> f ` set xs"
  shows "\<exists>x. filter (\<lambda>y. k = f y) xs = [x]"
proof -
  from assms(2) obtain x where "x \<in> set xs" "k = f x" by auto
  with filter_key_unique[OF assms(1), of x] show ?thesis by auto
qed

lemma filter_key_at_most_one:
  assumes "distinct (map f xs)"
  shows "filter (\<lambda>y. k = f y) xs = [] \<or> (\<exists>x. filter (\<lambda>y. k = f y) xs = [x])"
proof (cases "k \<in> f ` set xs")
  case True
  with filter_key_resolves[OF assms True] show ?thesis by simp
next
  case False
  then have "filter (\<lambda>y. k = f y) xs = []" by (auto simp add: filter_empty_conv)
  then show ?thesis by simp
qed

lemma concat_map_if:
  "concat (map (\<lambda>c. if P c then [g c] else []) xs) = map g (filter P xs)"
  by (induction xs) simp_all

lemma distinct_map_Some:
  "distinct (map f xs) \<Longrightarrow> distinct (map (\<lambda>x. Some (f x)) xs)"
  by (simp add: distinct_map inj_on_def)

lemma left_join_single:
  "xs = [] \<or> (\<exists>x. xs = [x]) \<Longrightarrow> \<exists>y. left_join xs = [y]"
  by (auto simp add: left_join_def)

text \<open>The rows that the joins produce for one case.\<close>

lemma joined_rows_of_case:
  assumes keys: "schema_keys db" and c: "c \<in> set (cases db)"
  shows "map ic_id
           [\<lparr>ic_id = c_id c, ic_case_number = c_case_number c, ic_title = c_title c,
              ic_status = c_status c, ic_last_activity_at = c_last_activity_at c,
              ic_last_inactivity_notification = c_last_inactivity_notification c,
              ic_client_user_id = u_id u, ic_client_email = u_email u,
              ic_client_first_name = u_first_name u, ic_client_last_name = u_last_name u,
              ic_lawyer_name = (case lu of None \<Rightarrow> '' ''
                                | Some w \<Rightarrow> u_first_name w @ '' '' @ u_last_name w)\<rparr>.
            cl \<leftarrow> filter (\<lambda>cl. c_client_id c = cl_id cl) (clients db),
            u \<leftarrow> filter (\<lambda>u. cl_user_id cl = u_id u) (users db),
            l \<leftarrow> left_join (filter (\<lambda>l. c_lawyer_id c = Some (l_id l)) (lawyers db)),
            lu \<leftarrow> left_join (case l of None \<Rightarrow> []
                               | Some lw \<Rightarrow> filter (\<lambda>lu. l_user_id lw = u_id lu) (users db)),
            needs_inactivity_notification now daysThreshold c]
         = (if needs_inactivity_notification now daysThreshold c then [c_id c] else [])"
proof -
  from keys have du: "distinct (map u_id (users db))" and dc: "distinct (map cl_id (clients db))"
    and dl: "distinct (map l_id (lawyers db))"
    by (simp_all add: schema_keys_def)
  from keys c have "c_client_id c \<in> cl_id ` set (clients db)" by (simp add: schema_keys_def)
  from filter_key_resolves[OF dc this]
  obtain cl where cl: "filter (\<lambda>cl. c_client_id c = cl_id cl) (clients db) = [cl]" by blast
  then have "cl \<in> set (filter (\<lambda>cl. c_client_id c = cl_id cl) (clients db))" by simp
  then have "cl \<in> set (clients db)" by simp
  with keys have "cl_user_id cl \<in> u_id ` set (users db)" by (simp add: schema_keys_def)
  from filter_key_resolves[OF du this]
  obtain u where u: "filter (\<lambda>u. cl_user_id cl = u_id u) (users db) = [u]" by blast
  from left_join_single[OF filter_key_at_most_one[OF distinct_map_Some[OF dl]]]
  obtain l where l: "left_join (filter (\<lambda>l. c_lawyer_id c = Some (l_id l)) (lawyers db)) = [l]"
    by blast
  have "\<exists>lu. left_join (case l of None \<Rightarrow> []
                          | Some lw \<Rightarrow> filter (\<lambda>lu. l_user_id lw = u_id lu) (users db)) = [lu]"
  proof (cases l)
    case None
    then show ?thesis by (simp add: left_join_def)
  next
    case (Some lw)
    with left_join_single[OF filter_key_at_most_one[OF du, of "l_user_id lw"]] show ?thesis by simp
  qed
  then obtain lu where lu: "left_join (case l of None \<Rightarrow> []
                          | Some lw \<Rightarrow> filter (\<lambda>lu. l_user_id lw = u_id lu) (users db)) = [lu]"
    by blast
  show ?thesis by (simp add: cl u l lu)
qed

lemma selection_ids:
  assumes keys: "schema_keys db"
  shows "set (map ic_id (getInactiveCasesForNotification now daysThreshold db))
           = c_id ` {c \<in> set (cases db). needs_inactivity_notification now daysThreshold c}
         \<and> distinct (map ic_id (getInactiveCasesForNotification now daysThreshold db))"
proof -
  let ?rows = "\<lambda>c. [\<lparr>ic_id = c_id c, ic_case_number = c_case_number c, ic_title = c_title c,
              ic_status = c_status c, ic_last_activity_at = c_last_activity_at c,
              ic_last_inactivity_notification = c_last_inactivity_notification c,
              ic_client_user_id = u_id u, ic_client_email = u_email u,
              ic_client_first_name = u_first_name u, ic_client_last_name = u_last_name u,
              ic_lawyer_name = (case lu of None \<Rightarrow> '' ''
                                | Some w \<Rightarrow> u_first_name w @ '' '' @ u_last_name w)\<rparr>.
            cl \<leftarrow> filter (\<lambda>cl. c_client_id c = cl_id cl) (clients db),
            u \<leftarrow> filter (\<lambda>u. cl_user_id cl = u_id u) (users db),
            l \<leftarrow> left_join (filter (\<lambda>l. c_lawyer_id c = Some (l_id l)) (lawyers db)),
            lu \<leftarrow> left_join (case l of None \<Rightarrow> []
                               | Some lw \<Rightarrow> filter (\<lambda>lu. l_user_id lw = u_id lu) (users db)),
            needs_inactivity_notification now daysThreshold c]"
  have unsorted: "map ic_id (concat (map ?rows (cases db)))
          = map c_id (filter (needs_inactivity_notification now daysThreshold) (cases db))"
  proof -
    have "map ic_id (concat (map ?rows (cases db)))
            = concat (map (\<lambda>c. map ic_id (?rows c)) (cases db))"
      by (simp only: map_concat map_map comp_def)
    also have "\<dots> = concat (map (\<lambda>c. if needs_inactivity_notification now daysThreshold c
                                       then [c_id c] else []) (cases db))"
      by (rule arg_cong[where f = concat], rule map_cong[OF refl], rule joined_rows_of_case[OF keys])
    also have "\<dots> = map c_id (filter (needs_inactivity_notification now daysThreshold) (cases db))"
      by (rule concat_map_if)
    finally show ?thesis .
  qed
  have sel: "getInactiveCasesForNotification now daysThreshold db
               = sort_key ic_last_activity_at (concat (map ?rows (cases db)))"
    by (simp add: getInactiveCasesForNotification_def)
  have s: "set (map ic_id (getInactiveCasesForNotification now daysThreshold db))
             = set (map ic_id (concat (map ?rows (cases db))))"
    unfolding sel by (simp only: set_map set_sort)
  from keys have "distinct (map c_id (cases db))" by (simp add: schema_keys_def)
  then have "distinct (map c_id (filter (needs_inactivity_notification now daysThreshold) (cases db)))"
    by (rule distinct_map_filter)
  with unsorted have d0: "distinct (map ic_id (concat (map ?rows (cases db))))" by simp
  have d: "distinct (map ic_id (getInactiveCasesForNotification now daysThreshold db))"
    unfolding sel using d0 by (simp only: distinct_map set_sort distinct_sort)
  from s d unsorted show ?thesis by simp
qed

lemma selected_is_case:
  "x \<in> ic_id ` set (getInactiveCasesForNotification now daysThreshold db) \<Longrightarrow>
   \<exists>c \<in> set (cases db). c_id c = x \<and> needs_inactivity_notification now daysThreshold c"
  by (auto simp add: getInactiveCasesForNotification_def split: if_splits)

lemma stamped_not_selected:
  assumes "stamped t x db" "now \<le> t + 7 * DAY_MS"
  shows "x \<notin> ic_id ` set (getInactiveCasesForNotification now daysThreshold db)"
proof
  assume "x \<in> ic_id ` set (getInactiveCasesForNotification now daysThreshold db)"
  from selected_is_case[OF this] obtain c where
    "c \<in> set (cases db)" "c_id c = x" "needs_inactivity_notification now daysThreshold c" by blast
  with assms show False by (auto simp add: stamped_def needs_inactivity_notification_def)
qed

lemmas process_defs =
  process_inactive_case_def Let_def item_failed_def item_done_def notificationService_create_def
  updateNotificationTimestamp_def caseEventRepository_create_def insert_case_event_def
  update_case_last_activity_def

lemma process_case_keeps_stamp:
  "stamped (ie_t_stamp (env x)) x (js_db st) \<Longrightarrow>
   stamped (ie_t_stamp (env x)) x (js_db (process_inactive_case env st c))"
  by (auto simp add: stamped_def process_defs split: prod.splits if_splits)

lemma process_case_stamps:
  "\<not> notification_fails (env (ic_id c)) \<Longrightarrow> \<not> stamp_fails (env (ic_id c)) \<Longrightarrow>
   stamped (ie_t_stamp (env (ic_id c))) (ic_id c) (js_db (process_inactive_case env st c))"
  by (auto simp add: stamped_def process_defs split: prod.splits if_splits)

lemma foldl_case_keeps_stamp:
  "stamped (ie_t_stamp (env x)) x (js_db st) \<Longrightarrow>
   stamped (ie_t_stamp (env x)) x (js_db (foldl (process_inactive_case env) st xs))"
  by (induction xs arbitrary: st) (simp_all add: process_case_keeps_stamp)

lemma foldl_case_stamps:
  "x \<in> ic_id ` set xs \<Longrightarrow> \<not> notification_fails (env x) \<Longrightarrow> \<not> stamp_fails (env x) \<Longrightarrow>
   stamped (ie_t_stamp (env x)) x (js_db (foldl (process_inactive_case env) st xs))"
proof (induction xs arbitrary: st)
  case Nil
  then show ?case by simp
next
  case (Cons a xs)
  show ?case
  proof (cases "ic_id a = x")
    case True
    with Cons.prems have "stamped (ie_t_stamp (env x)) x (js_db (process_inactive_case env st a))"
      using process_case_stamps[of env a st] by simp
    then show ?thesis by (simp add: foldl_case_keeps_stamp)
  next
    case False
    with Cons.prems have "x \<in> ic_id ` set xs" by auto
    from Cons.IH[OF this Cons.prems(2,3)] show ?thesis by simp
  qed
qed

lemma run_stamps:
  "x \<in> ic_id ` set (getInactiveCasesForNotification now (inactivity_threshold configured) db) \<Longrightarrow>
   \<not> notification_fails (env x) \<Longrightarrow> \<not> stamp_fails (env x) \<Longrightarrow>
   stamped (ie_t_stamp (env x)) x (js_db (inactivityCheckJob_run now configured env db))"
  by (simp add: inactivityCheckJob_run_def Let_def foldl_case_stamps)

lemma run_notifications:
  "notifications (js_db (inactivityCheckJob_run now configured env db))
     = notifications db
       @ map (inactivity_notification env)
           (filter (\<lambda>c. \<not> notification_fails (env (ic_id c)))
              (getInactiveCasesForNotification now (inactivity_threshold configured) db))"
  by (simp add: inactivityCheckJob_run_def Let_def foldl_case_notifications)

lemma not_selected_not_notified:
  assumes "x \<notin> ic_id ` set (getInactiveCasesForNotification now (inactivity_threshold configured) db)"
  shows "filter (\<lambda>n. n_case_id n = Some x)
           (notifications (js_db (inactivityCheckJob_run now configured env db)))
         = filter (\<lambda>n. n_case_id n = Some x) (notifications db)"
proof -
  have "filter (\<lambda>n. n_case_id n = Some x)
          (map (inactivity_notification env)
             (filter (\<lambda>c. \<not> notification_fails (env (ic_id c)))
                (getInactiveCasesForNotification now (inactivity_threshold configured) db))) = []"
    using assms by (auto simp add: filter_empty_conv inactivity_notification_def)
  then show ?thesis by (simp add: run_notifications)
qed

lemma needs_unfolded:
  "needs_inactivity_notification now daysThreshold c \<longleftrightarrow>
     c_status c \<notin> {CLOSED, ARCHIVED, RESOLVED}
     \<and> DAY_MS * daysThreshold < now - c_last_activity_at c
     \<and> (c_last_inactivity_notification c = None
        \<or> (\<exists>t. c_last_inactivity_notification c = Some t \<and> 7 * DAY_MS < now - t))"
  by (cases "c_last_inactivity_notification c")
     (auto simp add: needs_inactivity_notification_def)

lemma example_keys: "schema_keys example_inactive_db"
  by (simp add: schema_keys_def example_inactive_db_def example_db_def example_case_def)

text \<open>
  Claim C4. Under the key constraints of the schema the inactivity scan selects, once
  each, exactly the cases whose status is not closed, archived or resolved, whose last
  activity is more than the threshold of days before now, and whose last inactivity
  notification is null or more than seven days before now. A case that a run selected
  and stamped (its notification and its stamp did not fail) is not selected by a scan
  that runs no later than seven days after the stamp, and a run of the job at that time
  adds no notification for it.
\<close>

theorem inactivity_scan_selection_and_idempotence:
  "(schema_keys db \<longrightarrow>
      set (map ic_id (getInactiveCasesForNotification now daysThreshold db))
        = c_id ` {c \<in> set (cases db).
                   c_status c \<notin> {CLOSED, ARCHIVED, RESOLVED}
                   \<and> DAY_MS * daysThreshold < now - c_last_activity_at c
                   \<and> (c_last_inactivity_notification c = None
                      \<or> (\<exists>t. c_last_inactivity_notification c = Some t \<and> 7 * DAY_MS < now - t))}
      \<and> distinct (map ic_id (getInactiveCasesForNotification now daysThreshold db)))
   \<and> (x \<in> ic_id ` set (getInactiveCasesForNotification now (inactivity_threshold configured) db)
      \<and> \<not> notification_fails (env x) \<and> \<not> stamp_fails (env x)
      \<and> later \<le> ie_t_stamp (env x) + 7 * DAY_MS \<longrightarrow>
        x \<notin> ic_id ` set (getInactiveCasesForNotification later daysThreshold'
                           (js_db (inactivityCheckJob_run now configured env db)))
        \<and> filter (\<lambda>n. n_case_id n = Some x)
            (notifications (js_db (inactivityCheckJob_run later configured' env'
                                     (js_db (inactivityCheckJob_run now configured env db)))))
          = filter (\<lambda>n. n_case_id n = Some x)
              (notifications (js_db (inactivityCheckJob_run now configured env db))))"
proof (intro conjI impI)
  assume keys: "schema_keys db"
  have same: "{c \<in> set (cases db).
                   c_status c \<notin> {CLOSED, ARCHIVED, RESOLVED}
                   \<and> DAY_MS * daysThreshold < now - c_last_activity_at c
                   \<and> (c_last_inactivity_notification c = None
                      \<or> (\<exists>t. c_last_inactivity_notification c = Some t \<and> 7 * DAY_MS < now - t))}
              = {c \<in> set (cases db). needs_inactivity_notification now daysThreshold c}"
    by (simp add: needs_unfolded)
  from selection_ids[OF keys, of now daysThreshold]
  show "set (map ic_id (getInactiveCasesForNotification now daysThreshold db))
        = c_id ` {c \<in> set (cases db).
                   c_status c \<notin> {CLOSED, ARCHIVED, RESOLVED}
                   \<and> DAY_MS * daysThreshold < now - c_last_activity_at c
                   \<and> (c_last_inactivity_notification c = None
                      \<or> (\<exists>t. c_last_inactivity_notification c = Some t \<and> 7 * DAY_MS < now - t))}"
    unfolding same by blast
  from selection_ids[OF keys, of now daysThreshold]
  show "distinct (map ic_id (getInactiveCasesForNotification now daysThreshold db))" by blast
next
  assume a: "x \<in> ic_id ` set (getInactiveCasesForNotification now (inactivity_threshold configured) db)
      \<and> \<not> notification_fails (env x) \<and> \<not> stamp_fails (env x)
      \<and> later \<le> ie_t_stamp (env x) + 7 * DAY_MS"
  then have st: "stamped (ie_t_stamp (env x)) x (js_db (inactivityCheckJob_run now configured env db))"
    by (simp add: run_stamps)
  from a have l: "later \<le> ie_t_stamp (env x) + 7 * DAY_MS" by simp
  from stamped_not_selected[OF st l]
  show "x \<notin> ic_id ` set (getInactiveCasesForNotification later daysThreshold'
                           (js_db (inactivityCheckJob_run now configured env db)))" .
  from stamped_not_selected[OF st l]
  show "filter (\<lambda>n. n_case_id n = Some x)
            (notifications (js_db (inactivityCheckJob_run later configured' env'
                                     (js_db (inactivityCheckJob_run now configured env db)))))
          = filter (\<lambda>n. n_case_id n = Some x)
              (notifications (js_db (inactivityCheckJob_run now configured env db)))"
    by (rule not_selected_not_notified)
qed

theorem inactivity_scan_selection_and_idempotence_witness:
  "schema_keys example_inactive_db
   \<and> set (map ic_id (getInactiveCasesForNotification 2000000000 21 example_inactive_db))
       = c_id ` {c \<in> set (cases example_inactive_db).
                   c_status c \<notin> {CLOSED, ARCHIVED, RESOLVED}
                   \<and> DAY_MS * 21 < 2000000000 - c_last_activity_at c
                   \<and> (c_last_inactivity_notification c = None
                      \<or> (\<exists>t. c_last_inactivity_notification c = Some t
                               \<and> 7 * DAY_MS < 2000000000 - t))}
   \<and> 101 \<in> ic_id ` set (getInactiveCasesForNotification 2000000000 (inactivity_threshold None)
                           example_inactive_db)
   \<and> 101 \<notin> ic_id ` set (getInactiveCasesForNotification 2604800002 21
                           (js_db (inactivityCheckJob_run 2000000000 None example_item_env
                                     example_inactive_db)))
   \<and> filter (\<lambda>n. n_case_id n = Some 101)
       (notifications
          (js_db (inactivityCheckJob_run 2604800002 None example_item_env
                    (js_db (inactivityCheckJob_run 2000000000 None example_item_env
                              example_inactive_db)))))
     = filter (\<lambda>n. n_case_id n = Some 101)
         (notifications (js_db (inactivityCheckJob_run 2000000000 None example_item_env
                                  example_inactive_db)))"
proof -
  have sel: "101 \<in> ic_id ` set (getInactiveCasesForNotification 2000000000
                                   (inactivity_threshold None) example_inactive_db)"
    using example_selection by (metis list.set_intros(1,2) set_map)
  have env: "\<not> notification_fails (example_item_env 101)" "\<not> stamp_fails (example_item_env 101)"
    "(2604800002::int) \<le> ie_t_stamp (example_item_env 101) + 7 * DAY_MS"
    by (simp_all add: example_item_env_def DAY_MS_def)
  from inactivity_scan_selection_and_idempotence
         [where db = example_inactive_db and now = 2000000000 and daysThreshold = 21
            and x = 101 and configured = None and env = example_item_env
            and later = 2604800002 and daysThreshold' = 21 and configured' = None
            and env' = example_item_env]
       example_keys sel env
  show ?thesis by blast
qed

section \<open>Properties of the message notification\<close>

lemma concat_map_empty: "(\<And>y. y \<in> set xs \<Longrightarrow> g y = []) \<Longrightarrow> concat (map g xs) = []"
  by (induction xs) simp_all

lemma concat_map_only:
  assumes "distinct (map f xs)" "x \<in> set xs" "\<And>y. y \<in> set xs \<Longrightarrow> f y \<noteq> f x \<Longrightarrow> g y = []"
  shows "concat (map g xs) = g x"
  using assms
proof (induction xs)
  case Nil
  then show ?case by simp
next
  case (Cons a xs)
  show ?case
  proof (cases "a = x")
    case True
    from Cons.prems(1) True have "f x \<notin> f ` set xs" by simp
    then have "\<And>y. y \<in> set xs \<Longrightarrow> f y \<noteq> f x" by (metis imageI)
    with Cons.prems(3) have "\<And>y. y \<in> set xs \<Longrightarrow> g y = []" by simp
    then have "concat (map g xs) = []" by (rule concat_map_empty)
    with True show ?thesis by simp
  next
    case False
    with Cons.prems(2) have x: "x \<in> set xs" by simp
    from Cons.prems(1) have d: "distinct (map f xs)" and "f a \<notin> f ` set xs" by simp_all
    with x have "f a \<noteq> f x" by (metis imageI)
    with Cons.prems(3) have "g a = []" by simp
    moreover from Cons.IH[OF d x] Cons.prems(3) have "concat (map g xs) = g x" by simp
    ultimately show ?thesis by simp
  qed
qed

lemma message_case_query_row:
  assumes keys: "schema_keys db"
    and c: "c \<in> set (cases db)" "c_id c = caseId"
    and cl: "cl \<in> set (clients db)" "cl_id cl = c_client_id c"
    and cu: "cu \<in> set (users db)" "u_id cu = cl_user_id cl"
    and lawyer: "(c_lawyer_id c = None \<and> l = None \<and> lu = None)
                 \<or> (\<exists>lw w. l = Some lw \<and> lu = Some w \<and> lw \<in> set (lawyers db)
                       \<and> c_lawyer_id c = Some (l_id lw) \<and> w \<in> set (users db) \<and> u_id w = l_user_id lw)"
  shows "message_case_query caseId db
         = [\<lparr>ci_title = c_title c, ci_client_user_id = cl_user_id cl, ci_client_email = u_email cu,
              ci_client_first_name = u_first_name cu, ci_client_last_name = u_last_name cu,
              ci_lawyer_user_id = map_option l_user_id l, ci_lawyer_email = map_option u_email lu,
              ci_lawyer_first_name = map_option u_first_name lu,
              ci_lawyer_last_name = map_option u_last_name lu\<rparr>]"
proof -
  let ?rows = "\<lambda>c. [\<lparr>ci_title = c_title c, ci_client_user_id = cl_user_id cl, ci_client_email = u_email cu,
        ci_client_first_name = u_first_name cu, ci_client_last_name = u_last_name cu,
        ci_lawyer_user_id = map_option l_user_id l, ci_lawyer_email = map_option u_email lu,
        ci_lawyer_first_name = map_option u_first_name lu,
        ci_lawyer_last_name = map_option u_last_name lu\<rparr>.
      cl \<leftarrow> filter (\<lambda>cl. c_client_id c = cl_id cl) (clients db),
      cu \<leftarrow> filter (\<lambda>cu. cl_user_id cl = u_id cu) (users db),
      l \<leftarrow> left_join (filter (\<lambda>l. c_lawyer_id c = Some (l_id l)) (lawyers db)),
      lu \<leftarrow> left_join (case l of None \<Rightarrow> []
                         | Some lw \<Rightarrow> filter (\<lambda>lu. l_user_id lw = u_id lu) (users db)),
      c_id c = caseId]"
  from keys have dc: "distinct (map c_id (cases db))" and dcl: "distinct (map cl_id (clients db))"
    and du: "distinct (map u_id (users db))" and dl: "distinct (map l_id (lawyers db))"
    by (simp_all add: schema_keys_def)
  have q: "message_case_query caseId db = concat (map ?rows (cases db))"
    by (simp add: message_case_query_def)
  have others: "?rows y = []" if "y \<in> set (cases db)" "c_id y \<noteq> c_id c" for y
    using that c(2) by (simp add: concat_map_empty)
  have one: "concat (map ?rows (cases db)) = ?rows c"
    by (rule concat_map_only[OF dc c(1)]) (rule others)
  have fcl: "filter (\<lambda>x. c_client_id c = cl_id x) (clients db) = [cl]"
    using filter_key_unique[OF dcl cl(1)] cl(2) by simp
  have fcu: "filter (\<lambda>x. cl_user_id cl = u_id x) (users db) = [cu]"
    using filter_key_unique[OF du cu(1)] cu(2) by simp
  from lawyer show ?thesis
  proof
    assume n: "c_lawyer_id c = None \<and> l = None \<and> lu = None"
    then show ?thesis unfolding q one using c(2) by (simp add: fcl fcu left_join_def)
  next
    assume "\<exists>lw w. l = Some lw \<and> lu = Some w \<and> lw \<in> set (lawyers db)
                       \<and> c_lawyer_id c = Some (l_id lw) \<and> w \<in> set (users db) \<and> u_id w = l_user_id lw"
    then obtain lw w where s: "l = Some lw" "lu = Some w" "lw \<in> set (lawyers db)"
      "c_lawyer_id c = Some (l_id lw)" "w \<in> set (users db)" "u_id w = l_user_id lw" by blast
    have fl: "filter (\<lambda>x. l_id lw = l_id x) (lawyers db) = [lw]"
      using filter_key_unique[OF dl s(3)] by simp
    have fw: "filter (\<lambda>x. l_user_id lw = u_id x) (users db) = [w]"
      using filter_key_unique[OF du s(5)] s(6) by simp
    show ?thesis unfolding q one using c(2) s(1,2,4) by (simp add: fcl fcu fl fw left_join_def)
  qed
qed

lemma message_case_query_none:
  "caseId \<notin> c_id ` set (cases db) \<Longrightarrow> message_case_query caseId db = []"
  unfolding message_case_query_def
  by (auto intro!: concat_map_empty simp add: image_iff)

text \<open>
  Claim C7. Under the keys of the schema, for the case of the message, its client and the
  client's user: the recipient follows from comparing the sender's user id with the user
  id of the case's client; no role enters. A sender who is the client, on a case with an
  assigned lawyer, yields one in-app notification for the lawyer's user and one email to
  that user's address. Any other sender yields one in-app notification for the client's
  user and one email to that user's address. A sender who is the client, on a case
  without a lawyer, yields no notification and no email, and the call returns all the
  same. For an identifier of no case nothing is created either.
\<close>

theorem notifyNewMessage_recipient:
  "(schema_keys db \<and> schema_lawyer_keys db
      \<and> c \<in> set (cases db) \<and> c_id c = caseId
      \<and> cl \<in> set (clients db) \<and> cl_id cl = c_client_id c
      \<and> cu \<in> set (users db) \<and> u_id cu = cl_user_id cl \<longrightarrow>
     (senderId = cl_user_id cl \<and> c_lawyer_id c = Some (l_id lw) \<and> lw \<in> set (lawyers db)
        \<and> w \<in> set (users db) \<and> u_id w = l_user_id lw \<longrightarrow>
        notifications (fst (notifyNewMessage now new_id caseId caseNumber senderId senderName db))
          = notifications db @
              [\<lparr>n_id = new_id, n_user_id = l_user_id lw, n_type = MESSAGE_RECEIVED,
                n_title = ''New Message'',
                n_message = senderName @ '' sent a message on case '' @ caseNumber @ ''.'',
                n_case_id = Some caseId, n_is_read = False, n_created_at = now, n_read_at = None\<rparr>]
        \<and> map em_to (fst (snd (notifyNewMessage now new_id caseId caseNumber senderId senderName db)))
          = [Some (u_email w)]
        \<and> map em_recipient_isClient
              (fst (snd (notifyNewMessage now new_id caseId caseNumber senderId senderName db)))
          = [False])
     \<and> (senderId \<noteq> cl_user_id cl \<longrightarrow>
        notifications (fst (notifyNewMessage now new_id caseId caseNumber senderId senderName db))
          = notifications db @
              [\<lparr>n_id = new_id, n_user_id = cl_user_id cl, n_type = MESSAGE_RECEIVED,
                n_title = ''New Message'',
                n_message = senderName @ '' sent a message on case '' @ caseNumber @ ''.'',
                n_case_id = Some caseId, n_is_read = False, n_created_at = now, n_read_at = None\<rparr>]
        \<and> map em_to (fst (snd (notifyNewMessage now new_id caseId caseNumber senderId senderName db)))
          = [Some (u_email cu)]
        \<and> map em_recipient_isClient
              (fst (snd (notifyNewMessage now new_id caseId caseNumber senderId senderName db)))
          = [True])
     \<and> (senderId = cl_user_id cl \<and> c_lawyer_id c = None \<longrightarrow>
        fst (notifyNewMessage now new_id caseId caseNumber senderId senderName db) = db
        \<and> fst (snd (notifyNewMessage now new_id caseId caseNumber senderId senderName db)) = []))
   \<and> (caseId \<notin> c_id ` set (cases db) \<longrightarrow>
        fst (notifyNewMessage now new_id caseId caseNumber senderId senderName db) = db
        \<and> fst (snd (notifyNewMessage now new_id caseId caseNumber senderId senderName db)) = [])"
proof (intro conjI impI)
  assume "caseId \<notin> c_id ` set (cases db)"
  then have none: "message_case_query caseId db = []" by (rule message_case_query_none)
  show "fst (notifyNewMessage now new_id caseId caseNumber senderId senderName db) = db"
    by (simp add: notifyNewMessage_def none)
  show "fst (snd (notifyNewMessage now new_id caseId caseNumber senderId senderName db)) = []"
    by (simp add: notifyNewMessage_def none)
next
  assume h: "schema_keys db \<and> schema_lawyer_keys db
      \<and> c \<in> set (cases db) \<and> c_id c = caseId
      \<and> cl \<in> set (clients db) \<and> cl_id cl = c_client_id c
      \<and> cu \<in> set (users db) \<and> u_id cu = cl_user_id cl"
  then have keys: "schema_keys db" and lkeys: "schema_lawyer_keys db"
    and c: "c \<in> set (cases db)" "c_id c = caseId"
    and cl: "cl \<in> set (clients db)" "cl_id cl = c_client_id c"
    and cu: "cu \<in> set (users db)" "u_id cu = cl_user_id cl"
    by simp_all
  note row = message_case_query_row[OF keys c cl cu]
  {
    assume a: "senderId = cl_user_id cl \<and> c_lawyer_id c = Some (l_id lw) \<and> lw \<in> set (lawyers db)
        \<and> w \<in> set (users db) \<and> u_id w = l_user_id lw"
    then have q: "message_case_query caseId db
         = [\<lparr>ci_title = c_title c, ci_client_user_id = cl_user_id cl, ci_client_email = u_email cu,
              ci_client_first_name = u_first_name cu, ci_client_last_name = u_last_name cu,
              ci_lawyer_user_id = Some (l_user_id lw), ci_lawyer_email = Some (u_email w),
              ci_lawyer_first_name = Some (u_first_name w),
              ci_lawyer_last_name = Some (u_last_name w)\<rparr>]"
      using row[where l = "Some lw" and lu = "Some w"] by simp
    from a show "notifications (fst (notifyNewMessage now new_id caseId caseNumber senderId senderName db))
          = notifications db @
              [\<lparr>n_id = new_id, n_user_id = l_user_id lw, n_type = MESSAGE_RECEIVED,
                n_title = ''New Message'',
                n_message = senderName @ '' sent a message on case '' @ caseNumber @ ''.'',
                n_case_id = Some caseId, n_is_read = False, n_created_at = now, n_read_at = None\<rparr>]"
      by (simp add: notifyNewMessage_def notificationService_create_def Let_def q)
    from a show "map em_to (fst (snd (notifyNewMessage now new_id caseId caseNumber senderId senderName db)))
          = [Some (u_email w)]"
      by (simp add: notifyNewMessage_def notificationService_create_def Let_def q)
    from a show "map em_recipient_isClient
              (fst (snd (notifyNewMessage now new_id caseId caseNumber senderId senderName db)))
          = [False]"
      by (simp add: notifyNewMessage_def notificationService_create_def Let_def q)
  }
  {
    assume a: "senderId = cl_user_id cl \<and> c_lawyer_id c = None"
    then have q: "message_case_query caseId db
         = [\<lparr>ci_title = c_title c, ci_client_user_id = cl_user_id cl, ci_client_email = u_email cu,
              ci_client_first_name = u_first_name cu, ci_client_last_name = u_last_name cu,
              ci_lawyer_user_id = None, ci_lawyer_email = None,
              ci_lawyer_first_name = None, ci_lawyer_last_name = None\<rparr>]"
      using row[where l = None and lu = None] by simp
    from a show "fst (notifyNewMessage now new_id caseId caseNumber senderId senderName db) = db"
      by (simp add: notifyNewMessage_def Let_def q)
    from a show "fst (snd (notifyNewMessage now new_id caseId caseNumber senderId senderName db)) = []"
      by (simp add: notifyNewMessage_def Let_def q)
  }
  {
    assume a: "senderId \<noteq> cl_user_id cl"
    have "\<exists>l lu. (c_lawyer_id c = None \<and> l = None \<and> lu = None)
                 \<or> (\<exists>lw w. l = Some lw \<and> lu = Some w \<and> lw \<in> set (lawyers db)
                       \<and> c_lawyer_id c = Some (l_id lw) \<and> w \<in> set (users db) \<and> u_id w = l_user_id lw)"
    proof (cases "c_lawyer_id c")
      case None
      then show ?thesis by blast
    next
      case (Some lid)
      with lkeys c(1) have "lid \<in> l_id ` set (lawyers db)" by (simp add: schema_lawyer_keys_def)
      then obtain lw where lw: "lw \<in> set (lawyers db)" "lid = l_id lw" by auto
      with lkeys have "l_user_id lw \<in> u_id ` set (users db)" by (simp add: schema_lawyer_keys_def)
      then obtain w where "w \<in> set (users db)" "u_id w = l_user_id lw" by auto
      with Some lw show ?thesis by blast
    qed
    then obtain l lu where "(c_lawyer_id c = None \<and> l = None \<and> lu = None)
                 \<or> (\<exists>lw w. l = Some lw \<and> lu = Some w \<and> lw \<in> set (lawyers db)
                       \<and> c_lawyer_id c = Some (l_id lw) \<and> w \<in> set (users db) \<and> u_id w = l_user_id lw)"
      by blast
    note q = row[OF this]
    from a show "notifications (fst (notifyNewMessage now new_id caseId caseNumber senderId senderName db))
          = notifications db @
              [\<lparr>n_id = new_id, n_user_id = cl_user_id cl, n_type = MESSAGE_RECEIVED,
                n_title = ''New Message'',
                n_message = senderName @ '' sent a message on case '' @ caseNumber @ ''.'',
                n_case_id = Some caseId, n_is_read = False, n_created_at = now, n_read_at = None\<rparr>]"
      by (simp add: notifyNewMessage_def notificationService_create_def Let_def q)
    from a show "map em_to (fst (snd (notifyNewMessage now new_id caseId caseNumber senderId senderName db)))
          = [Some (u_email cu)]"
      by (simp add: notifyNewMessage_def notificationService_create_def Let_def q)
    from a show "map em_recipient_isClient
              (fst (snd (notifyNewMessage now new_id caseId caseNumber senderId senderName db)))
          = [True]"
      by (simp add: notifyNewMessage_def notificationService_create_def Let_def q)
  }
qed

lemma example_two_clients_keys:
  "schema_keys example_two_clients_db" "schema_lawyer_keys example_two_clients_db"
  by (simp_all add: schema_keys_def schema_lawyer_keys_def example_two_clients_db_def example_db_def
                    example_case_def)

theorem notifyNewMessage_recipient_witness:
  "map n_user_id (notifications (fst (notifyNewMessage 5000 900 101 ''CASE-2025-00002'' 5 ''Bob Cole''
                                       example_two_clients_db))) = [2]
   \<and> map em_to (fst (snd (notifyNewMessage 5000 900 101 ''CASE-2025-00002'' 5 ''Bob Cole''
                             example_two_clients_db))) = [Some ''lea@example.com'']
   \<and> map n_user_id (notifications (fst (notifyNewMessage 5000 900 101 ''CASE-2025-00002'' 1 ''Ana Diaz''
                                         example_two_clients_db))) = [5]
   \<and> map em_to (fst (snd (notifyNewMessage 5000 900 101 ''CASE-2025-00002'' 1 ''Ana Diaz''
                             example_two_clients_db))) = [Some ''bob@example.com'']
   \<and> map n_user_id (notifications (fst (notifyNewMessage 5000 900 101 ''CASE-2025-00002'' 2 ''Lea Park''
                                         example_two_clients_db))) = [5]
   \<and> fst (notifyNewMessage 5000 900 100 ''CASE-2025-00001'' 1 ''Ana Diaz'' example_two_clients_db)
       = example_two_clients_db
   \<and> fst (snd (notifyNewMessage 5000 900 100 ''CASE-2025-00001'' 1 ''Ana Diaz''
                  example_two_clients_db)) = []
   \<and> fst (snd (notifyNewMessage 5000 900 777 ''CASE-2025-00009'' 1 ''Ana Diaz''
                  example_two_clients_db)) = []"
proof -
  let ?c100 = "example_case"
  let ?c101 = "example_case\<lparr>c_id := 101, c_case_number := ''CASE-2025-00002'',
                              c_client_id := 11, c_lawyer_id := Some 20\<rparr>"
  let ?ana = "\<lparr>u_id = 1, u_email = ''ana@example.com'', u_role = CLIENT, u_first_name = ''Ana'',
               u_last_name = ''Diaz'', u_is_active = True\<rparr>"
  let ?lea = "\<lparr>u_id = 2, u_email = ''lea@example.com'', u_role = LAWYER, u_first_name = ''Lea'',
               u_last_name = ''Park'', u_is_active = True\<rparr>"
  let ?bob = "\<lparr>u_id = 5, u_email = ''bob@example.com'', u_role = CLIENT,
               u_first_name = ''Bob'', u_last_name = ''Cole'', u_is_active = True\<rparr>"
  let ?cl10 = "\<lparr>cl_id = 10, cl_user_id = 1\<rparr>"
  let ?cl11 = "\<lparr>cl_id = 11, cl_user_id = 5\<rparr>"
  let ?l20 = "\<lparr>l_id = 20, l_user_id = 2, l_is_available = True\<rparr>"
  have rows101: "?c101 \<in> set (cases example_two_clients_db)" "c_id ?c101 = 101"
    "?cl11 \<in> set (clients example_two_clients_db)" "cl_id ?cl11 = c_client_id ?c101"
    "?bob \<in> set (users example_two_clients_db)" "u_id ?bob = cl_user_id ?cl11"
    "c_lawyer_id ?c101 = Some (l_id ?l20)" "?l20 \<in> set (lawyers example_two_clients_db)"
    "?lea \<in> set (users example_two_clients_db)" "u_id ?lea = l_user_id ?l20"
    by (simp_all add: example_two_clients_db_def example_db_def example_case_def)
  have rows100: "?c100 \<in> set (cases example_two_clients_db)" "c_id ?c100 = 100"
    "?cl10 \<in> set (clients example_two_clients_db)" "cl_id ?cl10 = c_client_id ?c100"
    "?ana \<in> set (users example_two_clients_db)" "u_id ?ana = cl_user_id ?cl10"
    "c_lawyer_id ?c100 = None"
    by (simp_all add: example_two_clients_db_def example_db_def example_case_def)
  have none: "777 \<notin> c_id ` set (cases example_two_clients_db)"
    "notifications example_two_clients_db = []"
    by (simp_all add: example_two_clients_db_def example_db_def example_case_def)
  note keys = example_two_clients_keys
  from notifyNewMessage_recipient
    [where db = example_two_clients_db and c = ?c101 and caseId = 101 and cl = ?cl11 and cu = ?bob
       and lw = ?l20 and w = ?lea and senderId = 5 and now = 5000 and new_id = 900
       and caseNumber = "''CASE-2025-00002''" and senderName = "''Bob Cole''"]
    keys rows101 none(2)
  have a: "map n_user_id (notifications (fst (notifyNewMessage 5000 900 101 ''CASE-2025-00002'' 5 ''Bob Cole''
                                       example_two_clients_db))) = [2]
   \<and> map em_to (fst (snd (notifyNewMessage 5000 900 101 ''CASE-2025-00002'' 5 ''Bob Cole''
                             example_two_clients_db))) = [Some ''lea@example.com'']"
    by simp
  from notifyNewMessage_recipient
    [where db = example_two_clients_db and c = ?c101 and caseId = 101 and cl = ?cl11 and cu = ?bob
       and senderId = 1 and now = 5000 and new_id = 900
       and caseNumber = "''CASE-2025-00002''" and senderName = "''Ana Diaz''"]
    keys rows101 none(2)
  have b: "map n_user_id (notifications (fst (notifyNewMessage 5000 900 101 ''CASE-2025-00002'' 1 ''Ana Diaz''
                                         example_two_clients_db))) = [5]
   \<and> map em_to (fst (snd (notifyNewMessage 5000 900 101 ''CASE-2025-00002'' 1 ''Ana Diaz''
                             example_two_clients_db))) = [Some ''bob@example.com'']"
    by simp
  from notifyNewMessage_recipient
    [where db = example_two_clients_db and c = ?c101 and caseId = 101 and cl = ?cl11 and cu = ?bob
       and senderId = 2 and now = 5000 and new_id = 900
       and caseNumber = "''CASE-2025-00002''" and senderName = "''Lea Park''"]
    keys rows101 none(2)
  have c: "map n_user_id (notifications (fst (notifyNewMessage 5000 900 101 ''CASE-2025-00002'' 2 ''Lea Park''
                                         example_two_clients_db))) = [5]"
    by simp
  from notifyNewMessage_recipient
    [where db = example_two_clients_db and c = ?c100 and caseId = 100 and cl = ?cl10 and cu = ?ana
       and senderId = 1 and now = 5000 and new_id = 900
       and caseNumber = "''CASE-2025-00001''" and senderName = "''Ana Diaz''"]
    keys rows100
  have d: "fst (notifyNewMessage 5000 900 100 ''CASE-2025-00001'' 1 ''Ana Diaz'' example_two_clients_db)
       = example_two_clients_db
   \<and> fst (snd (notifyNewMessage 5000 900 100 ''CASE-2025-00001'' 1 ''Ana Diaz''
                  example_two_clients_db)) = []"
    by simp
  from notifyNewMessage_recipient
    [where db = example_two_clients_db and caseId = 777 and senderId = 1 and now = 5000
       and new_id = 900 and caseNumber = "''CASE-2025-00009''" and senderName = "''Ana Diaz''"]
    none(1)
  have e: "fst (snd (notifyNewMessage 5000 900 777 ''CASE-2025-00009'' 1 ''Ana Diaz''
                  example_two_clients_db)) = []"
    by simp
  from a b c d e show ?thesis by simp
qed


section \<open>Properties of template rendering\<close>
















subsection \<open>Substitution of one variable\<close>










subsection \<open>Substitution over a template\<close>























subsection \<open>Conditional blocks\<close>

















subsection \<open>Rendering\<close>








lemma renderTemplate_SyntaxError:
  "\<not> list_all is_word_char key \<Longrightarrow>
   unterminated_group key \<or> RegExp_replace key template val = None \<Longrightarrow>
   renderTemplate RegExp_replace template ((key, val) # variables) = Inl SyntaxError"
  by (auto simp add: renderTemplate_def)




end
